theory Spec2Isabelle
  imports Complex_Main
begin

section \<open>Python strings\<close>

text \<open>
  A Python \<open>str\<close> is modelled as a HOL \<open>string\<close>; a character is read as the code point
  of the same number (0 to 255).  \<open>str.strip()\<close> removes the characters for which
  \<open>str.isspace\<close> holds, \<open>str.lower()\<close> maps the upper-case letters of that range to
  their lower-case partners (which differ from them in bit 5 only).
\<close>

definition isspace :: "char \<Rightarrow> bool" where
  "isspace c = (let n = (of_char c :: nat) in
     (9 \<le> n \<and> n \<le> 13) \<or> (28 \<le> n \<and> n \<le> 32) \<or> n = 133 \<or> n = 160)"

definition strip :: "string \<Rightarrow> string" where
  "strip s = rev (dropWhile isspace (rev (dropWhile isspace s)))"

definition isupper :: "char \<Rightarrow> bool" where
  "isupper c = (let n = (of_char c :: nat) in
     (65 \<le> n \<and> n \<le> 90) \<or> (192 \<le> n \<and> n \<le> 222 \<and> n \<noteq> 215))"

definition with_bit5 :: "bool \<Rightarrow> char \<Rightarrow> char" where
  "with_bit5 b c = (case c of Char b0 b1 b2 b3 b4 b5 b6 b7 \<Rightarrow> Char b0 b1 b2 b3 b4 b b6 b7)"

definition lower_char :: "char \<Rightarrow> char" where
  "lower_char c = (if isupper c then with_bit5 True c else c)"

definition lower :: "string \<Rightarrow> string" where
  "lower s = map lower_char s"

text \<open>
  \<open>s.split(sep, 1)\<close> for a non-empty separator: the text before the first occurrence of
  \<open>sep\<close>, and the text after it when there is an occurrence.  The Python list is
  \<open>[before]\<close> or \<open>[before, after]\<close>.
\<close>

fun split1 :: "string \<Rightarrow> string \<Rightarrow> string list" where
  "split1 sep [] = [[]]"
| "split1 sep (c # cs) =
     (if take (length sep) (c # cs) = sep then [[], drop (length sep) (c # cs)]
      else (case split1 sep cs of
              b # rest \<Rightarrow> (c # b) # rest
            | [] \<Rightarrow> [[c]]))"

text \<open>\<open>sep in s\<close> for a non-empty separator.\<close>

fun contains :: "string \<Rightarrow> string \<Rightarrow> bool" where
  "contains sep [] = False"
| "contains sep (c # cs) = (take (length sep) (c # cs) = sep \<or> contains sep cs)"

section \<open>Errors\<close>

text \<open>
  Every exception the modelled code can raise is a value.  \<open>InvalidDomain d\<close> is the
  \<open>ValueError\<close> of \<open>get_domain_data\<close> (its message shows \<open>d\<close>), \<open>ApiKeyNotFound v\<close> and
  \<open>FailedToRetrieve d\<close> are the two \<open>RuntimeError\<close>s of \<open>_fetch_raw_data\<close>,
  \<open>TransportError m\<close> is whatever \<open>requests.get\<close> or \<open>resp.json()\<close> raised; the others
  are the built-in exceptions of the same name.
\<close>

datatype py_error =
    InvalidDomain string
  | ApiKeyNotFound string
  | FailedToRetrieve string
  | TransportError string
  | ValueError
  | TypeError
  | AttributeError
  | OverflowError
  | IndexError
  | KeyError string

definition bind :: "py_error + 'a \<Rightarrow> ('a \<Rightarrow> py_error + 'b) \<Rightarrow> py_error + 'b" where
  "bind m f = (case m of Inl e \<Rightarrow> Inl e | Inr x \<Rightarrow> f x)"

text \<open>\<open>xs[i]\<close> for a non-negative index.\<close>

definition index :: "'a list \<Rightarrow> nat \<Rightarrow> py_error + 'a" where
  "index xs i = (if i < length xs then Inr (xs ! i) else Inl IndexError)"

section \<open>Domain normalizer (traffic\_utils.normalize\_domain)\<close>

definition normalize_domain :: "string \<Rightarrow> py_error + string" where
  "normalize_domain domain =
     (if domain = [] then Inr []
      else
        let d = lower (strip domain) in
        bind (if contains ''://'' d then index (split1 ''://'' d) 1 else Inr d) (\<lambda>d.
        bind (index (split1 ''/'' d) 0) (\<lambda>d.
        bind (index (split1 ''?'' d) 0) (\<lambda>d.
        Inr d))))"

text \<open>The value \<open>normalize_domain\<close> returns, in closed form.\<close>

definition canonical :: "string \<Rightarrow> string" where
  "canonical domain =
     (if domain = [] then []
      else
        let d = lower (strip domain);
            d = (if contains ''://'' d then split1 ''://'' d ! 1 else d);
            d = hd (split1 ''/'' d)
        in hd (split1 ''?'' d))"

section \<open>Python values\<close>

text \<open>
  A parsed JSON document, and every value the normalizers handle.  A \<open>float\<close> is the
  real number it denotes, or one of the three non-finite values (Python's \<open>json\<close> module
  reads \<open>NaN\<close>, \<open>Infinity\<close> and out-of-range literals such as \<open>1e400\<close>); rounding to
  the nearest double is not modelled.  A \<open>dict\<close> is the list of its items in insertion
  order, its keys being strings.
\<close>

datatype pyfloat = Finite real | PosInf | NegInf | NaN

datatype pyval =
    PNone
  | PBool bool
  | PInt int
  | PFloat pyfloat
  | PStr string
  | PList "pyval list"
  | PDict "(string \<times> pyval) list"

type_synonym pydict = "(string \<times> pyval) list"

text \<open>
  Library functions whose results are text or are read from text are parameters of the
  model: \<open>str(x)\<close>, \<open>format(x, ".nf")\<close> on a float, and the parsers behind \<open>float(s)\<close>
  and \<open>int(s)\<close> on a string (\<open>None\<close> where Python raises \<open>ValueError\<close>).
\<close>

record builtins =
  str_of :: "pyval \<Rightarrow> string"
  format_f :: "nat \<Rightarrow> pyfloat \<Rightarrow> string"
  float_of_str :: "string \<Rightarrow> pyfloat option"
  int_of_str :: "string \<Rightarrow> int option"

text \<open>\<open>bool(v)\<close>, and \<open>a or b\<close>.\<close>

fun truthy :: "pyval \<Rightarrow> bool" where
  "truthy PNone = False"
| "truthy (PBool b) = b"
| "truthy (PInt i) = (i \<noteq> 0)"
| "truthy (PFloat f) = (f \<noteq> Finite 0)"
| "truthy (PStr s) = (s \<noteq> [])"
| "truthy (PList xs) = (xs \<noteq> [])"
| "truthy (PDict kv) = (kv \<noteq> [])"

definition py_or :: "pyval \<Rightarrow> pyval \<Rightarrow> pyval" where
  "py_or a b = (if truthy a then a else b)"

text \<open>\<open>isinstance(v, (int, float))\<close>: \<open>bool\<close> is a subclass of \<open>int\<close>.\<close>

fun is_number :: "pyval \<Rightarrow> bool" where
  "is_number (PBool b) = True"
| "is_number (PInt i) = True"
| "is_number (PFloat f) = True"
| "is_number v = False"

text \<open>\<open>int(r)\<close> on a finite float truncates towards zero.\<close>

definition trunc :: "real \<Rightarrow> int" where
  "trunc r = (if 0 \<le> r then \<lfloor>r\<rfloor> else \<lceil>r\<rceil>)"

fun py_int :: "builtins \<Rightarrow> pyval \<Rightarrow> py_error + int" where
  "py_int B (PBool b) = Inr (if b then 1 else 0)"
| "py_int B (PInt i) = Inr i"
| "py_int B (PFloat (Finite r)) = Inr (trunc r)"
| "py_int B (PFloat NaN) = Inl ValueError"
| "py_int B (PFloat PosInf) = Inl OverflowError"
| "py_int B (PFloat NegInf) = Inl OverflowError"
| "py_int B (PStr s) = (case int_of_str B s of None \<Rightarrow> Inl ValueError | Some i \<Rightarrow> Inr i)"
| "py_int B v = Inl TypeError"

text \<open>
  \<open>float(v)\<close>.  An \<open>int\<close> that rounds to \<open>2 ^ 1024\<close> or more is too large for a double.
\<close>

fun py_float :: "builtins \<Rightarrow> pyval \<Rightarrow> py_error + pyfloat" where
  "py_float B (PBool b) = Inr (Finite (if b then 1 else 0))"
| "py_float B (PInt i) =
     (if \<bar>i\<bar> \<ge> 2 ^ 1024 - 2 ^ 970 then Inl OverflowError else Inr (Finite (of_int i)))"
| "py_float B (PFloat f) = Inr f"
| "py_float B (PStr s) = (case float_of_str B s of None \<Rightarrow> Inl ValueError | Some f \<Rightarrow> Inr f)"
| "py_float B v = Inl TypeError"

text \<open>
  \<open>str.title()\<close>: a cased character that follows a cased character is lower-cased, any
  other character is title-cased.  Among the code points 0 to 255 the cased characters
  are the letters, the two ordinal indicators and the micro sign; the title-case of a
  lower-case letter is its upper-case partner, that of the sharp s (223) is \<open>Ss\<close>, every
  other character is its own.  The title-cases of the micro sign (181) and of y with
  diaeresis (255) lie outside the range: the model leaves these two characters as they
  are, and it is exact on the strings without them (\<open>titlable\<close>).
\<close>

definition iscased :: "char \<Rightarrow> bool" where
  "iscased c = (let n = (of_char c :: nat) in
     (65 \<le> n \<and> n \<le> 90) \<or> (97 \<le> n \<and> n \<le> 122) \<or> n = 170 \<or> n = 181 \<or> n = 186
     \<or> (192 \<le> n \<and> n \<le> 214) \<or> (216 \<le> n \<and> n \<le> 246) \<or> 248 \<le> n)"

definition title_char :: "char \<Rightarrow> string" where
  "title_char c = (let n = (of_char c :: nat) in
     if (97 \<le> n \<and> n \<le> 122) \<or> (224 \<le> n \<and> n \<le> 254 \<and> n \<noteq> 247) then [with_bit5 False c]
     else if n = 223 then ''Ss''
     else [c])"

fun title_from :: "bool \<Rightarrow> string \<Rightarrow> string" where
  "title_from prev [] = []"
| "title_from prev (c # cs) =
     (if prev then [lower_char c] else title_char c) @ title_from (iscased c) cs"

definition title :: "string \<Rightarrow> string" where
  "title s = title_from False s"


text \<open>\<open>s.split(c)\<close> for a one-character separator.\<close>

fun split_char :: "char \<Rightarrow> string \<Rightarrow> string list" where
  "split_char sep [] = [[]]"
| "split_char sep (c # cs) =
     (if c = sep then [] # split_char sep cs
      else (case split_char sep cs of
              w # ws \<Rightarrow> (c # w) # ws
            | [] \<Rightarrow> [[c]]))"

subsection \<open>Dictionaries\<close>

text \<open>\<open>d.get(k)\<close> and \<open>d.get(k, default)\<close> on a \<open>dict\<close>; \<open>d[k] = v\<close>; \<open>d[k]\<close>.\<close>

definition dict_get :: "pydict \<Rightarrow> string \<Rightarrow> pyval" where
  "dict_get d k = (case map_of d k of None \<Rightarrow> PNone | Some v \<Rightarrow> v)"

definition dict_get_default :: "pydict \<Rightarrow> string \<Rightarrow> pyval \<Rightarrow> pyval" where
  "dict_get_default d k dflt = (case map_of d k of None \<Rightarrow> dflt | Some v \<Rightarrow> v)"

fun dict_set :: "string \<Rightarrow> pyval \<Rightarrow> pydict \<Rightarrow> pydict" where
  "dict_set k v [] = [(k, v)]"
| "dict_set k v ((k', v') # rest) =
     (if k' = k then (k, v) # rest else (k', v') # dict_set k v rest)"

definition dict_item :: "pydict \<Rightarrow> string \<Rightarrow> py_error + pyval" where
  "dict_item d k = (case map_of d k of None \<Rightarrow> Inl (KeyError k) | Some v \<Rightarrow> Inr v)"

text \<open>
  The same operations on a value of unknown type: \<open>x.get(k)\<close>, \<open>x.get(k, default)\<close> and
  \<open>x.items()\<close> exist on a \<open>dict\<close> only; \<open>for c in x\<close> runs over a list, over the
  characters of a string and over the keys of a \<open>dict\<close>.
\<close>

fun py_get :: "pyval \<Rightarrow> string \<Rightarrow> py_error + pyval" where
  "py_get (PDict d) k = Inr (dict_get d k)"
| "py_get v k = Inl AttributeError"

fun py_get_default :: "pyval \<Rightarrow> string \<Rightarrow> pyval \<Rightarrow> py_error + pyval" where
  "py_get_default (PDict d) k dflt = Inr (dict_get_default d k dflt)"
| "py_get_default v k dflt = Inl AttributeError"

fun py_items :: "pyval \<Rightarrow> py_error + pydict" where
  "py_items (PDict d) = Inr d"
| "py_items v = Inl AttributeError"

fun py_iter :: "pyval \<Rightarrow> py_error + pyval list" where
  "py_iter (PList xs) = Inr xs"
| "py_iter (PStr s) = Inr (map (\<lambda>c. PStr [c]) s)"
| "py_iter (PDict d) = Inr (map (\<lambda>kv. PStr (fst kv)) d)"
| "py_iter v = Inl TypeError"

section \<open>Clock\<close>

text \<open>A reading of \<open>datetime.now(timezone.utc)\<close>.\<close>

record datetime =
  year :: nat
  month :: nat
  day :: nat
  hour :: nat
  minute :: nat
  second :: nat

definition digit :: "nat \<Rightarrow> char" where
  "digit d = ''0123456789'' ! (d mod 10)"

definition pad2 :: "nat \<Rightarrow> string" where
  "pad2 n = [digit (n div 10), digit n]"

definition pad4 :: "nat \<Rightarrow> string" where
  "pad4 n = [digit (n div 1000), digit (n div 100), digit (n div 10), digit n]"

text \<open>\<open>dt.isoformat(timespec="seconds")\<close> of a reading in UTC.\<close>

definition isoformat :: "datetime \<Rightarrow> string" where
  "isoformat dt =
     pad4 (year dt) @ ''-'' @ pad2 (month dt) @ ''-'' @ pad2 (day dt) @ ''T'' @
     pad2 (hour dt) @ '':'' @ pad2 (minute dt) @ '':'' @ pad2 (second dt) @ ''+00:00''"

definition utc_now_iso :: "datetime \<Rightarrow> string" where
  "utc_now_iso now = isoformat now"

section \<open>Remote normalization (SimilarwebParser.\_normalize\_real\_response)\<close>

text \<open>
  The dotted-path getter \<open>g\<close>.  \<open>g_walk\<close> is its loop: \<open>None\<close> is the early
  \<open>return default\<close> at a node that is not a \<open>dict\<close>.
\<close>

fun g_walk :: "pyval \<Rightarrow> string list \<Rightarrow> pyval option" where
  "g_walk cur [] = Some cur"
| "g_walk cur (part # parts) =
     (case cur of
        PDict d \<Rightarrow> g_walk (dict_get d part) parts
      | _ \<Rightarrow> None)"

definition g :: "pydict \<Rightarrow> string \<Rightarrow> pyval \<Rightarrow> pyval" where
  "g raw path dflt =
     (case g_walk (PDict raw) (split_char CHR ''.'' path) of
        None \<Rightarrow> dflt
      | Some cur \<Rightarrow> (if cur \<noteq> PNone then cur else dflt))"

text \<open>
  The dict comprehension for \<open>estimatedMonthlyVisits\<close>; \<open>str(k)\<close> is \<open>k\<close>, a key being a
  string already.
\<close>

fun normalized_visits :: "builtins \<Rightarrow> pydict \<Rightarrow> pydict \<Rightarrow> py_error + pydict" where
  "normalized_visits B acc [] = Inr acc"
| "normalized_visits B acc ((k, v) # rest) =
     (if is_number v
      then bind (py_int B v) (\<lambda>i. normalized_visits B (dict_set k (PInt i) acc) rest)
      else normalized_visits B acc rest)"

text \<open>The loop over \<open>top_countries\<close>.\<close>

fun norm_countries :: "builtins \<Rightarrow> pyval list \<Rightarrow> pyval list \<Rightarrow> py_error + pyval list" where
  "norm_countries B acc [] = Inr acc"
| "norm_countries B acc (c # rest) =
     bind (py_get c ''country_code'') (\<lambda>code.
     bind (py_get c ''share'') (\<lambda>val.
     if truthy code \<and> is_number val
     then bind (py_float B val) (\<lambda>f.
            norm_countries B (acc @ [PDict [(''CountryCode'', code), (''Value'', PFloat f)]]) rest)
     else norm_countries B acc rest))"

text \<open>The loop over \<open>traffic_sources.items()\<close>.\<close>

fun norm_sources :: "builtins \<Rightarrow> pydict \<Rightarrow> pydict \<Rightarrow> py_error + pydict" where
  "norm_sources B acc [] = Inr acc"
| "norm_sources B acc ((key, val) # rest) =
     (if is_number val
      then bind (py_float B val) (\<lambda>f. norm_sources B (dict_set (title key) (PFloat f) acc) rest)
      else norm_sources B acc rest)"

text \<open>The loop over \<open>top_keywords_raw\<close>.\<close>

fun norm_keywords :: "builtins \<Rightarrow> pyval list \<Rightarrow> pyval list \<Rightarrow> py_error + pyval list" where
  "norm_keywords B acc [] = Inr acc"
| "norm_keywords B acc (kw # rest) =
     bind (py_get kw ''keyword'') (\<lambda>a.
     bind (if truthy a then Inr a else py_get kw ''name'') (\<lambda>name.
     bind (py_get kw ''visits'') (\<lambda>b.
     bind (if truthy b then Inr b else py_get kw ''value'') (\<lambda>val.
     bind (py_get kw ''cpc'') (\<lambda>c.
     let cpc = py_or c (PFloat (Finite 0)) in
     if truthy name \<and> is_number val
     then bind (py_int B val) (\<lambda>i.
          bind (py_float B cpc) (\<lambda>f.
            norm_keywords B
              (acc @ [PDict [(''name'', name), (''value'', PInt i), (''cpc'', PFloat f)]]) rest))
     else norm_keywords B acc rest)))))"

definition normalize_real_response ::
  "builtins \<Rightarrow> datetime \<Rightarrow> string \<Rightarrow> pydict \<Rightarrow> py_error + pydict" where
  "normalize_real_response B now domain raw =
     (let overview = dict_get_default raw ''overview'' (PDict []);
          estimated_visits = py_or (g raw ''traffic.estimated_monthly_visits'' (PDict [])) (PDict [])
      in
      bind (py_items estimated_visits) (\<lambda>ev_items.
      bind (normalized_visits B [] ev_items) (\<lambda>visits.
      let top_countries = py_or (g raw ''audience.top_countries'' (PList [])) (PList []) in
      bind (py_iter top_countries) (\<lambda>cs.
      bind (norm_countries B [] cs) (\<lambda>countries.
      let traffic_sources = py_or (g raw ''traffic.sources'' (PDict [])) (PDict []) in
      bind (py_items traffic_sources) (\<lambda>src_items.
      bind (norm_sources B [] src_items) (\<lambda>sources.
      let top_keywords_raw = py_or (g raw ''traffic.top_keywords'' (PList [])) (PList []) in
      bind (py_iter top_keywords_raw) (\<lambda>kws.
      bind (norm_keywords B [] kws) (\<lambda>keywords.
      let country_rank_raw = py_or (g raw ''ranking.country'' PNone) (PDict []) in
      bind (py_get_default country_rank_raw ''name'' (PStr [])) (\<lambda>cr_name.
      bind (py_get_default country_rank_raw ''code'' (PStr [])) (\<lambda>cr_code.
      bind (py_get_default country_rank_raw ''rank'' (PInt 0)) (\<lambda>cr_rank.
      let country_rank =
            PDict [(''Country'', cr_name), (''CountryCode'', cr_code), (''Rank'', cr_rank)] in
      bind (py_get overview ''title'') (\<lambda>ov_title.
      bind (py_get overview ''description'') (\<lambda>ov_descr.
      bind (py_float B (g raw ''engagement.bounce_rate'' (PFloat (Finite 0)))) (\<lambda>bounce.
      bind (py_float B (g raw ''engagement.pages_per_visit'' (PFloat (Finite 0)))) (\<lambda>pages.
      bind (py_int B (g raw ''engagement.visits'' (PInt 0))) (\<lambda>vis.
      bind (py_float B (g raw ''engagement.time_on_site'' (PFloat (Finite 0)))) (\<lambda>tos.
      Inr
        [(''domain'', PStr domain),
         (''snapshotDate'', PStr (utc_now_iso now)),
         (''title'', py_or (py_or ov_title (g raw ''meta.title'' PNone)) (PStr [])),
         (''description'', py_or (py_or ov_descr (g raw ''meta.description'' PNone)) (PStr [])),
         (''category'', py_or (g raw ''classification.category'' PNone) (PStr [])),
         (''screenshot'', py_or (g raw ''meta.screenshot_url'' PNone) (PStr [])),
         (''globalRank'', g raw ''ranking.global.rank'' (PInt 0)),
         (''countryRank'', country_rank),
         (''categoryRank'', PStr (str_of B (g raw ''ranking.category.rank'' (PStr [])))),
         (''estimatedMonthlyVisits'', PDict visits),
         (''bounceRate'', PStr (format_f B 4 bounce)),
         (''pagesPerVisit'', PStr (format_f B 2 pages)),
         (''visits'', PStr (str_of B (PInt vis))),
         (''timeOnSite'', PStr (format_f B 2 tos)),
         (''topCountryShares'', PList countries),
         (''trafficSources'', PDict sources),
         (''topKeywords'', PList keywords),
         (''isDataFromGA'', PBool (truthy (g raw ''meta.is_from_ga'' (PBool False)))),
         (''competitors'', g raw ''competition.competitors'' (PList []))]))))))))))))))))))"

section \<open>Notions used to state the properties of remote normalization\<close>

text \<open>
  The value stored at a path of keys: \<open>None\<close> when a node on the way is missing or is not
  a mapping, \<open>Some v\<close> when every key is present (\<open>v\<close> may be \<open>PNone\<close>, an explicit
  \<open>null\<close>).
\<close>

fun lookup_path :: "pyval \<Rightarrow> string list \<Rightarrow> pyval option" where
  "lookup_path v [] = Some v"
| "lookup_path v (k # ks) =
     (case v of
        PDict d \<Rightarrow> (case map_of d k of None \<Rightarrow> None | Some v' \<Rightarrow> lookup_path v' ks)
      | _ \<Rightarrow> None)"

text \<open>
  A dotted path is \<open>absent\<close> from a payload when no value is stored at it, and \<open>stored\<close>
  is the value stored at it, \<open>PNone\<close> when the path is absent: a field is missing when
  \<open>stored\<close> is \<open>PNone\<close> (absent, or an explicit \<open>null\<close>).
\<close>

definition absent :: "pydict \<Rightarrow> string \<Rightarrow> bool" where
  "absent raw path = (lookup_path (PDict raw) (split_char CHR ''.'' path) = None)"

definition stored :: "pydict \<Rightarrow> string \<Rightarrow> pyval" where
  "stored raw path =
     (case lookup_path (PDict raw) (split_char CHR ''.'' path) of
        None \<Rightarrow> PNone
      | Some v \<Rightarrow> v)"

text \<open>
  What the keyword loop reads off one entry: its name, its value and its \<open>cpc\<close>, and
  whether it emits the entry.
\<close>

definition kw_name :: "pydict \<Rightarrow> pyval" where
  "kw_name d = py_or (dict_get d ''keyword'') (dict_get d ''name'')"

definition kw_value :: "pydict \<Rightarrow> pyval" where
  "kw_value d = py_or (dict_get d ''visits'') (dict_get d ''value'')"

definition kw_cpc :: "pydict \<Rightarrow> pyval" where
  "kw_cpc d = py_or (dict_get d ''cpc'') (PFloat (Finite 0))"

definition kw_kept :: "pydict \<Rightarrow> bool" where
  "kw_kept d = (truthy (kw_name d) \<and> is_number (kw_value d))"

text \<open>
  A number that \<open>int(v)\<close> and \<open>float(v)\<close> both accept: a \<open>bool\<close>, an \<open>int\<close> in the range
  of a double, a finite \<open>float\<close>.
\<close>

fun finite_number :: "pyval \<Rightarrow> bool" where
  "finite_number (PBool b) = True"
| "finite_number (PInt i) = (\<bar>i\<bar> < 2 ^ 1024 - 2 ^ 970)"
| "finite_number (PFloat (Finite r)) = True"
| "finite_number v = False"

text \<open>
  The shapes the normalizer expects of the nodes it consults.  Each takes the value
  \<open>g\<close> finds at the path with default \<open>None\<close>, so an absent node and a \<open>null\<close> are
  \<open>PNone\<close>.  A mapping of numbers may hold other values (they are skipped), a sequence
  must consist of mappings.
\<close>

fun is_dict :: "pyval \<Rightarrow> bool" where
  "is_dict (PDict d) = True"
| "is_dict v = False"

definition number_or_skipped :: "pyval \<Rightarrow> bool" where
  "number_or_skipped v = (finite_number v \<or> \<not> is_number v)"

fun numbers_shape :: "pyval \<Rightarrow> bool" where
  "numbers_shape (PDict d) = list_all (\<lambda>kv. number_or_skipped (snd kv)) d"
| "numbers_shape v = (\<not> truthy v)"

fun country_shape :: "pyval \<Rightarrow> bool" where
  "country_shape (PDict d) = number_or_skipped (dict_get d ''share'')"
| "country_shape v = False"

fun countries_shape :: "pyval \<Rightarrow> bool" where
  "countries_shape (PList cs) = list_all country_shape cs"
| "countries_shape v = (\<not> truthy v)"

fun keyword_shape :: "pyval \<Rightarrow> bool" where
  "keyword_shape (PDict d) = (number_or_skipped (kw_value d) \<and> finite_number (kw_cpc d))"
| "keyword_shape v = False"

fun keywords_shape :: "pyval \<Rightarrow> bool" where
  "keywords_shape (PList kws) = list_all keyword_shape kws"
| "keywords_shape v = (\<not> truthy v)"

definition absent_or_number :: "pyval \<Rightarrow> bool" where
  "absent_or_number v = (v = PNone \<or> finite_number v)"

definition expected_shape :: "pydict \<Rightarrow> bool" where
  "expected_shape raw =
     (is_dict (dict_get_default raw ''overview'' (PDict []))
      \<and> numbers_shape (g raw ''traffic.estimated_monthly_visits'' PNone)
      \<and> countries_shape (g raw ''audience.top_countries'' PNone)
      \<and> numbers_shape (g raw ''traffic.sources'' PNone)
      \<and> keywords_shape (g raw ''traffic.top_keywords'' PNone)
      \<and> (is_dict (g raw ''ranking.country'' PNone) \<or> \<not> truthy (g raw ''ranking.country'' PNone))
      \<and> absent_or_number (g raw ''engagement.bounce_rate'' PNone)
      \<and> absent_or_number (g raw ''engagement.pages_per_visit'' PNone)
      \<and> absent_or_number (g raw ''engagement.visits'' PNone)
      \<and> absent_or_number (g raw ''engagement.time_on_site'' PNone))"

text \<open>The keys of a normalized record, in the order the code writes them.\<close>

definition schema_keys :: "string list" where
  "schema_keys =
     [''domain'', ''snapshotDate'', ''title'', ''description'', ''category'', ''screenshot'',
      ''globalRank'', ''countryRank'', ''categoryRank'', ''estimatedMonthlyVisits'',
      ''bounceRate'', ''pagesPerVisit'', ''visits'', ''timeOnSite'', ''topCountryShares'',
      ''trafficSources'', ''topKeywords'', ''isDataFromGA'', ''competitors'']"

text \<open>
  An instance of the library functions for closed examples; no example depends on what
  it returns.
\<close>

definition no_text :: builtins where
  "no_text = \<lparr>str_of = (\<lambda>v. []), format_f = (\<lambda>n f. []),
              float_of_str = (\<lambda>s. None), int_of_str = (\<lambda>s. None)\<rparr>"

definition noon :: datetime where
  "noon = \<lparr>year = 2026, month = 11, day = 3, hour = 12, minute = 0, second = 0\<rparr>"

section \<open>The client (SimilarwebParser)\<close>

record config =
  base_url :: string
  api_key_env :: string
  timeout :: int
  max_retries :: int
  backoff_factor :: real
  use_mock_data :: bool

text \<open>\<open>s.rstrip("/")\<close>, and the constructor, which stores \<open>base_url\<close> without trailing slashes.\<close>

definition rstrip_slash :: "string \<Rightarrow> string" where
  "rstrip_slash s = rev (dropWhile (\<lambda>c. c = CHR ''/'') (rev s))"

definition init :: "string \<Rightarrow> string \<Rightarrow> int \<Rightarrow> int \<Rightarrow> real \<Rightarrow> bool \<Rightarrow> config" where
  "init url env t retries backoff mock =
     \<lparr>base_url = rstrip_slash url, api_key_env = env, timeout = t, max_retries = retries,
      backoff_factor = backoff, use_mock_data = mock\<rparr>"

text \<open>
  What the code reads from outside: the process environment, the clock (its readings in
  the order the code takes them during one call, counted from 0) and the transport.
  \<open>requests_get W url n\<close> is the outcome of the \<open>n\<close>-th \<open>requests.get\<close> of one fetch
  (counted from 1): a response, or an exception.  \<open>json\<close> of a response is what
  \<open>resp.json()\<close> returns or raises.
\<close>

record response =
  status_code :: int
  resp_text :: string
  json :: "py_error + pyval"

datatype http_outcome = Responded response | Raised py_error

record world =
  environ :: "string \<Rightarrow> string option"
  clock :: "nat \<Rightarrow> datetime"
  requests_get :: "string \<Rightarrow> nat \<Rightarrow> http_outcome"

text \<open>
  What the code does to the outside, in order: log records (by their message), requests
  (URL, query parameters, timeout) and sleeps (seconds).
\<close>

datatype effect =
    LogDebug string
  | LogWarning string
  | HttpGet string "(string \<times> string) list" int
  | Sleep real

subsection \<open>\_has\_api\_key\<close>

definition has_api_key :: "config \<Rightarrow> world \<Rightarrow> bool \<times> effect list" where
  "has_api_key cfg W =
     (case environ W (api_key_env cfg) of
        None \<Rightarrow> (False, [LogWarning ''Environment variable %s not set; falling back to mock data.''])
      | Some api_key \<Rightarrow>
          if api_key = []
          then (False, [LogWarning ''Environment variable %s not set; falling back to mock data.''])
          else (True, []))"

subsection \<open>\_fetch\_raw\_data and \_sleep\_with\_backoff\<close>

text \<open>
  \<open>time.sleep\<close> raises \<open>ValueError\<close> on a negative length.  The delay is computed on
  reals; multiplying a double by a power of two is exact short of overflow.
\<close>

definition sleep_with_backoff :: "config \<Rightarrow> nat \<Rightarrow> (py_error + unit) \<times> effect list" where
  "sleep_with_backoff cfg attempt =
     (let delay = backoff_factor cfg * 2 ^ (attempt - 1)
      in if delay < 0 then (Inl ValueError, []) else (Inr (), [Sleep delay]))"

text \<open>
  The body of the \<open>try\<close> statement of one attempt: the parsed body it returns, or the
  exception the \<open>except\<close> clause caught, if any (a status outside 200 to 299 is a failure
  without an exception).
\<close>

datatype attempt_result = Returned pyval | Failed "py_error option"

definition try_request ::
  "config \<Rightarrow> world \<Rightarrow> string \<Rightarrow> (string \<times> string) list \<Rightarrow> nat \<Rightarrow> attempt_result \<times> effect list" where
  "try_request cfg W url params attempt =
     (case requests_get W url attempt of
        Raised exc \<Rightarrow>
          (Failed (Some exc),
           [HttpGet url params (timeout cfg),
            LogWarning ''Request error for domain %s (attempt %d/%d): %s''])
      | Responded resp \<Rightarrow>
          if 200 \<le> status_code resp \<and> status_code resp < 300
          then (case json resp of
                  Inr body \<Rightarrow> (Returned body, [HttpGet url params (timeout cfg)])
                | Inl exc \<Rightarrow>
                    (Failed (Some exc),
                     [HttpGet url params (timeout cfg),
                      LogWarning ''Request error for domain %s (attempt %d/%d): %s'']))
          else (Failed None,
                [HttpGet url params (timeout cfg),
                 LogWarning ''Non-success status code for %s: %s - body: %s'']))"

text \<open>The \<open>for attempt in range(1, self.max_retries + 1)\<close> loop and what follows it.\<close>

fun fetch_loop ::
  "config \<Rightarrow> world \<Rightarrow> string \<Rightarrow> string \<Rightarrow> (string \<times> string) list \<Rightarrow> nat list \<Rightarrow> py_error option
   \<Rightarrow> (py_error + pyval) \<times> effect list" where
  "fetch_loop cfg W domain url params [] last_exc =
     (case last_exc of
        Some exc \<Rightarrow> (Inl exc, [])
      | None \<Rightarrow> (Inl (FailedToRetrieve domain), []))"
| "fetch_loop cfg W domain url params (attempt # rest) last_exc =
     (case try_request cfg W url params attempt of
        (Returned body, es) \<Rightarrow> (Inr body, es)
      | (Failed caught, es) \<Rightarrow>
          let last_exc' = (case caught of Some exc \<Rightarrow> Some exc | None \<Rightarrow> last_exc) in
          if int attempt < max_retries cfg
          then (case sleep_with_backoff cfg attempt of
                  (Inl exc, es') \<Rightarrow> (Inl exc, es @ es')
                | (Inr u, es') \<Rightarrow>
                    (case fetch_loop cfg W domain url params rest last_exc' of
                       (r, es'') \<Rightarrow> (r, es @ es' @ es'')))
          else (case fetch_loop cfg W domain url params rest last_exc' of
                  (r, es'') \<Rightarrow> (r, es @ es'')))"

definition fetch_raw_data :: "config \<Rightarrow> world \<Rightarrow> string \<Rightarrow> (py_error + pyval) \<times> effect list" where
  "fetch_raw_data cfg W domain =
     (case environ W (api_key_env cfg) of
        None \<Rightarrow> (Inl (ApiKeyNotFound (api_key_env cfg)), [])
      | Some api_key \<Rightarrow>
          if api_key = [] then (Inl (ApiKeyNotFound (api_key_env cfg)), [])
          else
            let url = base_url cfg @ ''/'' @ domain @ ''/overview'';
                params = [(''api_key'', api_key), (''format'', ''json'')]
            in fetch_loop cfg W domain url params [1..<nat (max_retries cfg + 1)] None)"

section \<open>Mock data (traffic\_utils)\<close>

subsection \<open>Dates\<close>

definition is_leap :: "nat \<Rightarrow> bool" where
  "is_leap y = (y mod 4 = 0 \<and> (y mod 100 \<noteq> 0 \<or> y mod 400 = 0))"

definition days_in_month :: "nat \<Rightarrow> nat \<Rightarrow> nat" where
  "days_in_month y m =
     (if m = 2 then (if is_leap y then 29 else 28)
      else if m = 4 \<or> m = 6 \<or> m = 9 \<or> m = 11 then 30 else 31)"

text \<open>
  \<open>date(y, m, d) - timedelta(days=n)\<close> in the proleptic Gregorian calendar; \<open>None\<close> is the
  \<open>OverflowError\<close> of a result before year 1.
\<close>

function date_sub :: "nat \<Rightarrow> nat \<Rightarrow> nat \<Rightarrow> nat \<Rightarrow> (nat \<times> nat \<times> nat) option" where
  "date_sub y m d n =
     (if n < d then Some (y, m, d - n)
      else if d = 0 then None
      else if m \<le> 1 then (if y \<le> 1 then None else date_sub (y - 1) 12 31 (n - d))
      else date_sub y (m - 1) (days_in_month y (m - 1)) (n - d))"
  by pat_completeness auto
termination
  by (relation "measure (\<lambda>(y, m, d, n). n)") auto

declare date_sub.simps [simp del]

subsection \<open>\_hash\_to\_int and \_pseudo\_random\_float\<close>

text \<open>
  The parameters of the mock generator.  \<open>sha256 s\<close> is the SHA-256 digest of the UTF-8
  bytes of \<open>s\<close> read as a big-endian number; its hexadecimal rendering has 64 digits, so
  the first 12 of them are the number divided by \<open>2 ^ 208\<close>.  The other three belong to
  the part of the generator that is not in the source: see \<open>generate_mock_profile\<close>.
\<close>

record mock_tables =
  sha256 :: "string \<Rightarrow> nat"
  decay :: "real \<Rightarrow> real"
  metric :: "string \<Rightarrow> int \<times> real \<times> real"
  derived :: "string \<Rightarrow> string \<Rightarrow> int \<Rightarrow> pyval"

definition hash_to_int :: "mock_tables \<Rightarrow> string \<Rightarrow> int" where
  "hash_to_int M s = int ((sha256 M s mod 2 ^ 256) div 2 ^ 208)"

definition pseudo_random_float :: "int \<Rightarrow> real \<Rightarrow> real \<Rightarrow> real" where
  "pseudo_random_float seed minimum maximum =
     (let a = 1664525;
          c = 1013904223;
          m = 2 ^ 32;
          val = (a * seed + c) mod m;
          frac = real_of_int val / real_of_int m
      in minimum + (maximum - minimum) * frac)"

subsection \<open>\_build\_estimated\_visits\<close>

text \<open>
  The key of the month reached by walking \<open>30 * i\<close> days back from the first of this
  month: \<open>(today.replace(day=1) - timedelta(days=30 * i)).replace(day=1)\<close>, printed by
  \<open>strftime("%Y-%m-01")\<close>, where \<open>%Y\<close> is taken to print four digits.
\<close>

definition month_key :: "datetime \<Rightarrow> nat \<Rightarrow> py_error + string" where
  "month_key today i =
     (case date_sub (year today) (month today) 1 (30 * i) of
        None \<Rightarrow> Inl OverflowError
      | Some (y, m, d) \<Rightarrow> Inr (pad4 y @ ''-'' @ pad2 m @ ''-01''))"

definition month_keys :: "datetime \<Rightarrow> py_error + string list" where
  "month_keys today =
     bind (month_key today 2) (\<lambda>k2.
     bind (month_key today 1) (\<lambda>k1.
     bind (month_key today 0) (\<lambda>k0.
     Inr [k2, k1, k0])))"

text \<open>
  The loop \<open>for key in months[::-1]\<close>.  The source file ends after the assignment
  \<open>visits[key] = max(1000, int(current))\<close>.

  Modelled from the spec: the rest of the loop body and the \<open>return\<close> of
  \<open>_build_estimated_visits\<close> are missing.  The spec has the counts "generally decaying
  moving backward from a base visit value" and the mapping in "oldest to newest insertion
  order": the update of \<open>current\<close> is the parameter \<open>step\<close>, and the mapping is returned
  with the order of its insertions reversed.
\<close>

fun visits_loop :: "(real \<Rightarrow> real) \<Rightarrow> pydict \<Rightarrow> real \<Rightarrow> string list \<Rightarrow> pydict" where
  "visits_loop step visits current [] = visits"
| "visits_loop step visits current (key # keys) =
     visits_loop step (dict_set key (PInt (max 1000 (trunc current))) visits) (step current) keys"

definition build_estimated_visits :: "(real \<Rightarrow> real) \<Rightarrow> datetime \<Rightarrow> int \<Rightarrow> py_error + pydict" where
  "build_estimated_visits step today base =
     bind (month_keys today) (\<lambda>months.
     Inr (rev (visits_loop step [] (real_of_int base) (rev months))))"

subsection \<open>generate\_mock\_profile\<close>

text \<open>
  Modelled from the spec: \<open>generate_mock_profile\<close> is missing from the source.  Following
  section 4.2 of the spec, the seed is \<open>_hash_to_int\<close> of the canonical domain; each
  numeric metric is \<open>_pseudo_random_float\<close> at the seed plus a per-field offset, in a
  per-field range (the table \<open>metric\<close>: offset, minimum, maximum), the ranks and the visit
  count being integers; the visit history is \<open>_build_estimated_visits\<close> at a base derived
  from the seed in the same way; the texts and the lists are derived from the domain and
  the seed (the table \<open>derived\<close>).  The keys are the ones \<open>_normalize_mock_response\<close> reads.
\<close>

definition mock_number :: "mock_tables \<Rightarrow> int \<Rightarrow> string \<Rightarrow> real" where
  "mock_number M seed field =
     (case metric M field of (offset, minimum, maximum) \<Rightarrow>
        pseudo_random_float (seed + offset) minimum maximum)"

definition generate_mock_profile :: "mock_tables \<Rightarrow> datetime \<Rightarrow> string \<Rightarrow> py_error + pydict" where
  "generate_mock_profile M today domain =
     (let seed = hash_to_int M domain in
      bind (build_estimated_visits (decay M) today
              (trunc (mock_number M seed ''estimated_monthly_visits''))) (\<lambda>history.
      Inr [(''domain'', PStr domain),
           (''title'', derived M ''title'' domain seed),
           (''description'', derived M ''description'' domain seed),
           (''category'', derived M ''category'' domain seed),
           (''screenshot'', derived M ''screenshot'' domain seed),
           (''global_rank'', PInt (trunc (mock_number M seed ''global_rank''))),
           (''country_rank'', PInt (trunc (mock_number M seed ''country_rank''))),
           (''category_rank'', PInt (trunc (mock_number M seed ''category_rank''))),
           (''estimated_monthly_visits'', PDict history),
           (''bounce_rate'', PFloat (Finite (mock_number M seed ''bounce_rate''))),
           (''pages_per_visit'', PFloat (Finite (mock_number M seed ''pages_per_visit''))),
           (''visits'', PInt (trunc (mock_number M seed ''visits''))),
           (''time_on_site'', PFloat (Finite (mock_number M seed ''time_on_site''))),
           (''top_country_shares'', derived M ''top_country_shares'' domain seed),
           (''traffic_sources'', derived M ''traffic_sources'' domain seed),
           (''top_keywords'', derived M ''top_keywords'' domain seed),
           (''competitors'', derived M ''competitors'' domain seed)]))"

section \<open>Mock normalization (SimilarwebParser.\_normalize\_mock\_response)\<close>

text \<open>
  \<open>f"{v:.nf}"\<close>: a number is formatted as a float; a string has no format code \<open>f\<close>
  (\<open>ValueError\<close>), \<open>None\<close>, a list and a \<open>dict\<close> take no format string (\<open>TypeError\<close>).
\<close>

fun py_format_f :: "builtins \<Rightarrow> nat \<Rightarrow> pyval \<Rightarrow> py_error + string" where
  "py_format_f B n (PFloat f) = Inr (format_f B n f)"
| "py_format_f B n (PInt i) = bind (py_float B (PInt i)) (\<lambda>f. Inr (format_f B n f))"
| "py_format_f B n (PBool b) = bind (py_float B (PBool b)) (\<lambda>f. Inr (format_f B n f))"
| "py_format_f B n (PStr s) = Inl ValueError"
| "py_format_f B n v = Inl TypeError"

definition normalize_mock_response :: "builtins \<Rightarrow> datetime \<Rightarrow> pydict \<Rightarrow> py_error + pydict" where
  "normalize_mock_response B now raw =
     bind (dict_item raw ''domain'') (\<lambda>v_domain.
     bind (dict_item raw ''title'') (\<lambda>v_title.
     bind (dict_item raw ''description'') (\<lambda>v_description.
     bind (dict_item raw ''category'') (\<lambda>v_category.
     bind (dict_item raw ''screenshot'') (\<lambda>v_screenshot.
     bind (dict_item raw ''global_rank'') (\<lambda>v_global_rank.
     bind (dict_item raw ''country_rank'') (\<lambda>v_country_rank.
     bind (dict_item raw ''category_rank'') (\<lambda>v_category_rank.
     bind (dict_item raw ''estimated_monthly_visits'') (\<lambda>v_visits_history.
     bind (bind (dict_item raw ''bounce_rate'') (py_format_f B 4)) (\<lambda>s_bounce.
     bind (bind (dict_item raw ''pages_per_visit'') (py_format_f B 2)) (\<lambda>s_pages.
     bind (dict_item raw ''visits'') (\<lambda>v_visits.
     bind (bind (dict_item raw ''time_on_site'') (py_format_f B 2)) (\<lambda>s_time.
     bind (dict_item raw ''top_country_shares'') (\<lambda>v_shares.
     bind (dict_item raw ''traffic_sources'') (\<lambda>v_sources.
     bind (dict_item raw ''top_keywords'') (\<lambda>v_keywords.
     bind (dict_item raw ''competitors'') (\<lambda>v_competitors.
     Inr [(''domain'', v_domain),
          (''snapshotDate'', PStr (utc_now_iso now)),
          (''title'', v_title),
          (''description'', v_description),
          (''category'', v_category),
          (''screenshot'', v_screenshot),
          (''globalRank'', v_global_rank),
          (''countryRank'', v_country_rank),
          (''categoryRank'', v_category_rank),
          (''estimatedMonthlyVisits'', v_visits_history),
          (''bounceRate'', PStr s_bounce),
          (''pagesPerVisit'', PStr s_pages),
          (''visits'', PStr (str_of B v_visits)),
          (''timeOnSite'', PStr s_time),
          (''topCountryShares'', v_shares),
          (''trafficSources'', v_sources),
          (''topKeywords'', v_keywords),
          (''isDataFromGA'', PBool False),
          (''competitors'', v_competitors)])))))))))))))))))"

section \<open>The entry point (SimilarwebParser.get\_domain\_data)\<close>

text \<open>
  The mock path reads the clock twice: in \<open>_build_estimated_visits\<close>, then in
  \<open>_normalize_mock_response\<close>.  The remote path reads it once, in
  \<open>_normalize_real_response\<close>, whose argument must be a \<open>dict\<close> for \<open>raw.get\<close> to exist;
  the debug record that function writes before it returns is added in \<open>real_path\<close>.
\<close>

definition mock_path ::
  "world \<Rightarrow> builtins \<Rightarrow> mock_tables \<Rightarrow> string \<Rightarrow> py_error + pydict" where
  "mock_path W B M clean_domain =
     bind (generate_mock_profile M (clock W 0) clean_domain) (\<lambda>raw.
     normalize_mock_response B (clock W 1) raw)"

definition real_path ::
  "config \<Rightarrow> world \<Rightarrow> builtins \<Rightarrow> string \<Rightarrow> (py_error + pydict) \<times> effect list" where
  "real_path cfg W B clean_domain =
     (case fetch_raw_data cfg W clean_domain of
        (Inl exc, es) \<Rightarrow> (Inl exc, es)
      | (Inr raw_response, es) \<Rightarrow>
          (case raw_response of
             PDict raw \<Rightarrow>
               (case normalize_real_response B (clock W 0) clean_domain raw of
                  Inl exc \<Rightarrow> (Inl exc, es)
                | Inr normalized \<Rightarrow>
                    (Inr normalized, es @ [LogDebug ''Normalized real response for %s: %s'']))
           | _ \<Rightarrow> (Inl AttributeError, es)))"

definition get_domain_data ::
  "config \<Rightarrow> world \<Rightarrow> builtins \<Rightarrow> mock_tables \<Rightarrow> string \<Rightarrow> (py_error + pydict) \<times> effect list" where
  "get_domain_data cfg W B M domain =
     (case normalize_domain domain of
        Inl exc \<Rightarrow> (Inl exc, [])
      | Inr clean_domain \<Rightarrow>
          if clean_domain = [] then (Inl (InvalidDomain domain), [])
          else if use_mock_data cfg
          then (mock_path W B M clean_domain, [LogDebug ''Using mock traffic profile for %s''])
          else (case has_api_key cfg W of
                  (False, es) \<Rightarrow>
                    (mock_path W B M clean_domain,
                     es @ [LogDebug ''Using mock traffic profile for %s''])
                | (True, es) \<Rightarrow>
                    (case real_path cfg W B clean_domain of
                       (r, es') \<Rightarrow> (r, es @ [LogDebug ''Fetching real data for %s''] @ es'))))"

section \<open>Notions used to state the properties of the client\<close>









text \<open>Instances for closed examples.\<close>

definition example_config :: config where
  "example_config =
     \<lparr>base_url = ''https://api.similarweb.com/v1/website'', api_key_env = ''SIMILARWEB_API_KEY'',
      timeout = 10, max_retries = 3, backoff_factor = 1/2, use_mock_data = False\<rparr>"

definition example_tables :: mock_tables where
  "example_tables =
     \<lparr>sha256 = (\<lambda>s. 0), decay = (\<lambda>r. r * (9/10)),
      metric = (\<lambda>f. (0, 1000, 2000)), derived = (\<lambda>f d s. PStr [])\<rparr>"

definition offline_world :: world where
  "offline_world =
     \<lparr>environ = (\<lambda>v. None), clock = (\<lambda>n. noon),
      requests_get = (\<lambda>url n. Raised (TransportError ''connection refused''))\<rparr>"



text \<open>
  The record the mock path builds from a visit history and the second clock reading,
  written out.
\<close>

definition mock_record ::
  "builtins \<Rightarrow> mock_tables \<Rightarrow> string \<Rightarrow> pydict \<Rightarrow> datetime \<Rightarrow> pydict" where
  "mock_record B M domain history now =
     (let seed = hash_to_int M domain in
      [(''domain'', PStr domain),
       (''snapshotDate'', PStr (utc_now_iso now)),
       (''title'', derived M ''title'' domain seed),
       (''description'', derived M ''description'' domain seed),
       (''category'', derived M ''category'' domain seed),
       (''screenshot'', derived M ''screenshot'' domain seed),
       (''globalRank'', PInt (trunc (mock_number M seed ''global_rank''))),
       (''countryRank'', PInt (trunc (mock_number M seed ''country_rank''))),
       (''categoryRank'', PInt (trunc (mock_number M seed ''category_rank''))),
       (''estimatedMonthlyVisits'', PDict history),
       (''bounceRate'', PStr (format_f B 4 (Finite (mock_number M seed ''bounce_rate'')))),
       (''pagesPerVisit'', PStr (format_f B 2 (Finite (mock_number M seed ''pages_per_visit'')))),
       (''visits'', PStr (str_of B (PInt (trunc (mock_number M seed ''visits''))))),
       (''timeOnSite'', PStr (format_f B 2 (Finite (mock_number M seed ''time_on_site'')))),
       (''topCountryShares'', derived M ''top_country_shares'' domain seed),
       (''trafficSources'', derived M ''traffic_sources'' domain seed),
       (''topKeywords'', derived M ''top_keywords'' domain seed),
       (''isDataFromGA'', PBool False),
       (''competitors'', derived M ''competitors'' domain seed)])"

definition month_end_world :: world where
  "month_end_world =
     \<lparr>environ = (\<lambda>v. Some ''secret''),
      clock = (\<lambda>n. \<lparr>year = 2026, month = 11, day = 30, hour = 23, minute = 59, second = n\<rparr>),
      requests_get = (\<lambda>url n. Raised (TransportError ''timed out''))\<rparr>"

section \<open>Facts about the string functions\<close>

lemma bind_Inr [simp]: "bind (Inr x) f = f x"
  by (simp add: bind_def)

lemma bind_Inl [simp]: "bind (Inl e) f = Inl e"
  by (simp add: bind_def)

lemma index_0 [simp]: "index (x # xs) 0 = Inr x"
  by (simp add: index_def)

lemma index_1 [simp]: "index (x # y # ys) (Suc 0) = Inr y"
  by (simp add: index_def)

lemma split1_nonempty: "split1 sep s \<noteq> []"
  by (induction s) (auto split: list.splits)

lemma split1_contains:
  "contains sep s \<Longrightarrow> \<exists>b a. split1 sep s = [b, a] \<and> set a \<subseteq> set s"
proof (induction s)
  case Nil
  then show ?case by simp
next
  case (Cons c cs)
  show ?case
  proof (cases "take (length sep) (c # cs) = sep")
    case True
    then show ?thesis by (auto dest: in_set_dropD)
  next
    case False
    with Cons.prems have "contains sep cs" by simp
    from Cons.IH [OF this] obtain b a where "split1 sep cs = [b, a]" "set a \<subseteq> set cs"
      by blast
    with False show ?thesis by auto
  qed
qed

lemma split1_head:
  "\<exists>b rest. split1 [x] s = b # rest \<and> x \<notin> set b \<and> set b \<subseteq> set s \<and> (x \<notin> set s \<longrightarrow> b = s)"
proof (induction s)
  case Nil
  then show ?case by simp
next
  case (Cons c cs)
  then obtain b rest where
    "split1 [x] cs = b # rest" "x \<notin> set b" "set b \<subseteq> set cs" "x \<notin> set cs \<longrightarrow> b = cs"
    by blast
  then show ?case by auto
qed

lemma contains_needs_char: "contains sep s \<Longrightarrow> x \<in> set sep \<Longrightarrow> x \<in> set s"
proof (induction s)
  case Nil
  then show ?case by simp
next
  case (Cons c cs)
  show ?case
  proof (cases "take (length sep) (c # cs) = sep")
    case True
    with Cons.prems(2) have "x \<in> set (take (length sep) (c # cs))" by simp
    then show ?thesis by (rule in_set_takeD)
  next
    case False
    with Cons show ?thesis by simp
  qed
qed

lemma set_strip: "set (strip s) \<subseteq> set s"
proof -
  have "set (strip s) \<subseteq> set (dropWhile isspace s)"
    unfolding strip_def using set_dropWhileD [of _ isspace "rev (dropWhile isspace s)"] by auto
  also have "\<dots> \<subseteq> set s"
    using set_dropWhileD [of _ isspace s] by auto
  finally show ?thesis .
qed

lemma strip_all_space: "\<forall>c \<in> set s. isspace c \<Longrightarrow> strip s = []"
proof -
  assume "\<forall>c \<in> set s. isspace c"
  then have d: "dropWhile isspace s = []" by (induction s) auto
  show ?thesis unfolding strip_def d by simp
qed

lemma upper_bit5: "isupper (Char b0 b1 b2 b3 b4 b5 b6 b7) \<Longrightarrow> \<not> b5"
  by (cases b0; cases b1; cases b2; cases b3; cases b4; cases b5; cases b6; cases b7)
     (simp_all add: isupper_def)

lemma lower_char_idem: "lower_char (lower_char c) = lower_char c"
proof (cases c)
  case (Char b0 b1 b2 b3 b4 b5 b6 b7)
  show ?thesis
    using upper_bit5 [of b0 b1 b2 b3 b4 True b6 b7]
    by (auto simp: Char lower_char_def with_bit5_def)
qed

lemma lower_fixed: "\<forall>c \<in> set s. lower_char c = c \<Longrightarrow> lower s = s"
  by (simp add: lower_def map_idI)

lemma lower_chars_fixed: "c \<in> set (lower s) \<Longrightarrow> lower_char c = c"
  by (auto simp: lower_def lower_char_idem)

lemma normalize_domain_canonical: "normalize_domain s = Inr (canonical s)"
proof (cases "s = []")
  case True
  then show ?thesis by (simp add: normalize_domain_def canonical_def)
next
  case False
  define d0 where "d0 = lower (strip s)"
  define d1 where "d1 = (if contains ''://'' d0 then split1 ''://'' d0 ! 1 else d0)"
  have s1: "(if contains ''://'' d0 then index (split1 ''://'' d0) 1 else Inr d0) = Inr d1"
  proof (cases "contains ''://'' d0")
    case True
    from split1_contains [OF this] obtain b a where "split1 ''://'' d0 = [b, a]" by blast
    with True show ?thesis by (simp add: d1_def)
  next
    case False
    then show ?thesis by (simp add: d1_def)
  qed
  obtain b2 r2 where s2: "split1 ''/'' d1 = b2 # r2"
    using split1_nonempty [of "''/''" d1] by (cases "split1 ''/'' d1") auto
  obtain b3 r3 where s3: "split1 ''?'' b2 = b3 # r3"
    using split1_nonempty [of "''?''" b2] by (cases "split1 ''?'' b2") auto
  from False s1 s2 s3 show ?thesis
    by (simp add: normalize_domain_def canonical_def Let_def d0_def [symmetric] d1_def [symmetric])
qed

lemma canonical_chars:
  "c \<in> set (canonical s) \<Longrightarrow> lower_char c = c \<and> c \<noteq> CHR ''/'' \<and> c \<noteq> CHR ''?''"
proof -
  assume c: "c \<in> set (canonical s)"
  then have ne: "s \<noteq> []" by (auto simp: canonical_def)
  define d0 where "d0 = lower (strip s)"
  define d1 where "d1 = (if contains ''://'' d0 then split1 ''://'' d0 ! 1 else d0)"
  have d1: "set d1 \<subseteq> set d0"
  proof (cases "contains ''://'' d0")
    case True
    from split1_contains [OF this] obtain b a where "split1 ''://'' d0 = [b, a]" "set a \<subseteq> set d0"
      by blast
    with True show ?thesis by (simp add: d1_def)
  next
    case False
    then show ?thesis by (simp add: d1_def)
  qed
  obtain b2 r2 where s2: "split1 ''/'' d1 = b2 # r2" "CHR ''/'' \<notin> set b2" "set b2 \<subseteq> set d1"
    using split1_head [of "CHR ''/''" d1] by blast
  obtain b3 r3 where s3: "split1 ''?'' b2 = b3 # r3" "CHR ''?'' \<notin> set b3" "set b3 \<subseteq> set b2"
    using split1_head [of "CHR ''?''" b2] by blast
  have "canonical s = b3"
    using ne s2(1) s3(1)
    by (simp add: canonical_def Let_def d0_def [symmetric] d1_def [symmetric])
  with c have "c \<in> set b3" by simp
  with s2 s3 d1 have "c \<in> set d0" "c \<noteq> CHR ''/''" "c \<noteq> CHR ''?''" by auto
  then show ?thesis by (auto simp: d0_def dest: lower_chars_fixed)
qed

lemma canonical_of_plain:
  assumes "\<forall>c \<in> set r. lower_char c = c \<and> c \<noteq> CHR ''/'' \<and> c \<noteq> CHR ''?''"
  shows "canonical r = strip r"
proof (cases "r = []")
  case True
  then show ?thesis by (simp add: canonical_def strip_def)
next
  case False
  define d where "d = strip r"
  have sub: "set d \<subseteq> set r" by (simp add: d_def set_strip)
  with assms have fixed: "\<forall>c \<in> set d. lower_char c = c" by blast
  then have low: "lower d = d" by (rule lower_fixed)
  from sub assms have noslash: "CHR ''/'' \<notin> set d" and noq: "CHR ''?'' \<notin> set d" by auto
  have nosch: "\<not> contains ''://'' d"
    using contains_needs_char [of "''://''" d "CHR ''/''"] noslash by auto
  have h1: "hd (split1 ''/'' d) = d"
    using split1_head [of "CHR ''/''" d] noslash by auto
  have h2: "hd (split1 ''?'' d) = d"
    using split1_head [of "CHR ''?''" d] noq by auto
  from False low nosch h1 h2 show ?thesis
    by (simp add: canonical_def Let_def d_def [symmetric])
qed

section \<open>Facts about remote normalization\<close>

lemma g_walk_none: "(case g_walk PNone ps of None \<Rightarrow> d | Some c \<Rightarrow> if c \<noteq> PNone then c else d) = d"
  by (cases ps) auto

lemma g_walk_lookup:
  "(case g_walk cur ps of None \<Rightarrow> d | Some c \<Rightarrow> if c \<noteq> PNone then c else d)
   = (case lookup_path cur ps of None \<Rightarrow> d | Some v \<Rightarrow> if v \<noteq> PNone then v else d)"
proof (induction ps arbitrary: cur)
  case Nil
  then show ?case by simp
next
  case (Cons p ps)
  show ?case
  proof (cases cur)
    case (PDict dct)
    show ?thesis
    proof (cases "map_of dct p")
      case None
      then show ?thesis using g_walk_none [where ps=ps and d=d] by (simp add: PDict dict_get_def)
    next
      case (Some v)
      then show ?thesis using Cons.IH [where cur=v] by (simp add: PDict dict_get_def)
    qed
  qed simp_all
qed









lemma keywords_step:
  "norm_keywords B acc (PDict d # rest) =
     (if kw_kept d
      then bind (py_int B (kw_value d)) (\<lambda>i.
           bind (py_float B (kw_cpc d)) (\<lambda>f.
             norm_keywords B
               (acc @ [PDict [(''name'', kw_name d), (''value'', PInt i), (''cpc'', PFloat f)]]) rest))
      else norm_keywords B acc rest)"
  by (simp add: kw_kept_def kw_name_def kw_value_def kw_cpc_def py_or_def Let_def)

lemma keywords_run:
  "norm_keywords B acc (map PDict ds) = Inr out \<Longrightarrow>
   \<exists>new. out = acc @ new \<and>
     list_all2 (\<lambda>e d. \<exists>i f. py_int B (kw_value d) = Inr i \<and> py_float B (kw_cpc d) = Inr f
                  \<and> e = PDict [(''name'', kw_name d), (''value'', PInt i), (''cpc'', PFloat f)])
       new (filter kw_kept ds)"
proof (induction ds arbitrary: acc)
  case Nil
  then show ?case by simp
next
  case (Cons d ds)
  show ?case
  proof (cases "kw_kept d")
    case True
    with Cons.prems obtain i f where i: "py_int B (kw_value d) = Inr i"
      and f: "py_float B (kw_cpc d) = Inr f"
      and run: "norm_keywords B
         (acc @ [PDict [(''name'', kw_name d), (''value'', PInt i), (''cpc'', PFloat f)]])
         (map PDict ds) = Inr out"
      by (auto simp: keywords_step bind_def simp del: norm_keywords.simps split: sum.splits)
    from Cons.IH [OF run] obtain new where
      "out = (acc @ [PDict [(''name'', kw_name d), (''value'', PInt i), (''cpc'', PFloat f)]]) @ new"
      "list_all2 (\<lambda>e d. \<exists>i f. py_int B (kw_value d) = Inr i \<and> py_float B (kw_cpc d) = Inr f
                  \<and> e = PDict [(''name'', kw_name d), (''value'', PInt i), (''cpc'', PFloat f)])
       new (filter kw_kept ds)" by blast
    with True i f show ?thesis by auto
  next
    case False
    with Cons.prems have "norm_keywords B acc (map PDict ds) = Inr out"
      by (simp add: keywords_step del: norm_keywords.simps)
    from Cons.IH [OF this] False show ?thesis by simp
  qed
qed

lemma g_dflt: "g raw p d = (if g raw p PNone = PNone then d else g raw p PNone)"
  by (auto simp: g_def split: option.splits)

lemma finite_number_int: "finite_number v \<Longrightarrow> \<exists>i. py_int B v = Inr i"
  by (induction v rule: finite_number.induct) auto

lemma finite_number_float: "finite_number v \<Longrightarrow> \<exists>f. py_float B v = Inr f"
  by (induction v rule: finite_number.induct) auto

lemma skipped_or_int: "number_or_skipped v \<Longrightarrow> is_number v \<Longrightarrow> \<exists>i. py_int B v = Inr i"
  by (auto simp: number_or_skipped_def dest: finite_number_int)

lemma skipped_or_float: "number_or_skipped v \<Longrightarrow> is_number v \<Longrightarrow> \<exists>f. py_float B v = Inr f"
  by (auto simp: number_or_skipped_def dest: finite_number_float)

lemma visits_total:
  "list_all (\<lambda>kv. number_or_skipped (snd kv)) d \<Longrightarrow> \<exists>out. normalized_visits B acc d = Inr out"
proof (induction d arbitrary: acc)
  case Nil
  then show ?case by simp
next
  case (Cons kv d)
  obtain k v where kv: "kv = (k, v)" by (cases kv)
  from Cons.prems have v: "number_or_skipped v" and rest: "list_all (\<lambda>kv. number_or_skipped (snd kv)) d"
    by (simp_all add: kv)
  show ?case
  proof (cases "is_number v")
    case True
    from skipped_or_int [OF v True] obtain i where "py_int B v = Inr i" by blast
    with True Cons.IH [OF rest] show ?thesis by (simp add: kv)
  next
    case False
    with Cons.IH [OF rest] show ?thesis by (simp add: kv)
  qed
qed

lemma sources_total:
  "list_all (\<lambda>kv. number_or_skipped (snd kv)) d \<Longrightarrow> \<exists>out. norm_sources B acc d = Inr out"
proof (induction d arbitrary: acc)
  case Nil
  then show ?case by simp
next
  case (Cons kv d)
  obtain k v where kv: "kv = (k, v)" by (cases kv)
  from Cons.prems have v: "number_or_skipped v" and rest: "list_all (\<lambda>kv. number_or_skipped (snd kv)) d"
    by (simp_all add: kv)
  show ?case
  proof (cases "is_number v")
    case True
    from skipped_or_float [OF v True] obtain f where "py_float B v = Inr f" by blast
    with True Cons.IH [OF rest] show ?thesis by (simp add: kv)
  next
    case False
    with Cons.IH [OF rest] show ?thesis by (simp add: kv)
  qed
qed

lemma countries_total:
  "list_all country_shape cs \<Longrightarrow> \<exists>out. norm_countries B acc cs = Inr out"
proof (induction cs arbitrary: acc)
  case Nil
  then show ?case by simp
next
  case (Cons c cs)
  from Cons.prems have c: "country_shape c" and rest: "list_all country_shape cs" by simp_all
  from c obtain d where d: "c = PDict d" and sh: "number_or_skipped (dict_get d ''share'')"
    by (cases c) auto
  show ?case
  proof (cases "truthy (dict_get d ''country_code'') \<and> is_number (dict_get d ''share'')")
    case True
    with skipped_or_float [OF sh] obtain f where "py_float B (dict_get d ''share'') = Inr f"
      by blast
    with True Cons.IH [OF rest] show ?thesis by (simp add: d)
  next
    case False
    with Cons.IH [OF rest] show ?thesis by (auto simp: d)
  qed
qed

lemma keywords_total:
  "list_all keyword_shape kws \<Longrightarrow> \<exists>out. norm_keywords B acc kws = Inr out"
proof (induction kws arbitrary: acc)
  case Nil
  then show ?case by simp
next
  case (Cons kw kws)
  from Cons.prems have k: "keyword_shape kw" and rest: "list_all keyword_shape kws" by simp_all
  from k obtain d where d: "kw = PDict d" and sh: "number_or_skipped (kw_value d)"
    and cp: "finite_number (kw_cpc d)"
    by (cases kw) auto
  show ?case
  proof (cases "kw_kept d")
    case True
    then have "is_number (kw_value d)" by (simp add: kw_kept_def)
    from skipped_or_int [OF sh this] obtain i where i: "py_int B (kw_value d) = Inr i" by blast
    from finite_number_float [OF cp] obtain f where f: "py_float B (kw_cpc d) = Inr f" by blast
    from True i f Cons.IH [OF rest] show ?thesis by (simp add: d keywords_step del: norm_keywords.simps)
  next
    case False
    with Cons.IH [OF rest] show ?thesis by (simp add: d keywords_step del: norm_keywords.simps)
  qed
qed

lemma numbers_node:
  "numbers_shape (g raw p PNone) \<Longrightarrow>
   \<exists>d. py_or (g raw p (PDict [])) (PDict []) = PDict d \<and> list_all (\<lambda>kv. number_or_skipped (snd kv)) d"
  by (subst g_dflt, cases "g raw p PNone") (auto simp: py_or_def)

lemma countries_node:
  "countries_shape (g raw p PNone) \<Longrightarrow>
   \<exists>cs. py_or (g raw p (PList [])) (PList []) = PList cs \<and> list_all country_shape cs"
  by (subst g_dflt, cases "g raw p PNone") (auto simp: py_or_def)

lemma keywords_node:
  "keywords_shape (g raw p PNone) \<Longrightarrow>
   \<exists>cs. py_or (g raw p (PList [])) (PList []) = PList cs \<and> list_all keyword_shape cs"
  by (subst g_dflt, cases "g raw p PNone") (auto simp: py_or_def)

lemma dict_node:
  "is_dict x \<or> \<not> truthy x \<Longrightarrow> \<exists>d. py_or x (PDict []) = PDict d"
  by (cases x) (auto simp: py_or_def)

lemma float_node:
  "absent_or_number (g raw p PNone) \<Longrightarrow> \<exists>f. py_float B (g raw p (PFloat (Finite 0))) = Inr f"
  by (subst g_dflt) (auto simp: absent_or_number_def dest: finite_number_float)

lemma int_node:
  "absent_or_number (g raw p PNone) \<Longrightarrow> \<exists>i. py_int B (g raw p (PInt 0)) = Inr i"
  by (subst g_dflt) (auto simp: absent_or_number_def dest: finite_number_int)

lemma normalize_real_response_shape:
  assumes sh: "expected_shape raw"
  shows "\<exists>r. normalize_real_response B now domain raw = Inr r \<and> map fst r = schema_keys"
proof -
  from sh obtain ov where ov: "dict_get_default raw ''overview'' (PDict []) = PDict ov"
    by (cases "dict_get_default raw ''overview'' (PDict [])") (auto simp: expected_shape_def)
  from sh numbers_node obtain d1 where
    d1: "py_or (g raw ''traffic.estimated_monthly_visits'' (PDict [])) (PDict []) = PDict d1"
    and s1: "list_all (\<lambda>kv. number_or_skipped (snd kv)) d1"
    unfolding expected_shape_def by blast
  from visits_total [OF s1] obtain o1 where o1: "normalized_visits B [] d1 = Inr o1" by blast
  from sh countries_node obtain d2 where
    d2: "py_or (g raw ''audience.top_countries'' (PList [])) (PList []) = PList d2"
    and s2: "list_all country_shape d2"
    unfolding expected_shape_def by blast
  from countries_total [OF s2] obtain o2 where o2: "norm_countries B [] d2 = Inr o2" by blast
  from sh numbers_node obtain d3 where
    d3: "py_or (g raw ''traffic.sources'' (PDict [])) (PDict []) = PDict d3"
    and s3: "list_all (\<lambda>kv. number_or_skipped (snd kv)) d3"
    unfolding expected_shape_def by blast
  from sources_total [OF s3] obtain o3 where o3: "norm_sources B [] d3 = Inr o3" by blast
  from sh keywords_node obtain d4 where
    d4: "py_or (g raw ''traffic.top_keywords'' (PList [])) (PList []) = PList d4"
    and s4: "list_all keyword_shape d4"
    unfolding expected_shape_def by blast
  from keywords_total [OF s4] obtain o4 where o4: "norm_keywords B [] d4 = Inr o4" by blast
  from sh dict_node obtain cr where
    cr: "py_or (g raw ''ranking.country'' PNone) (PDict []) = PDict cr"
    unfolding expected_shape_def by blast
  from sh float_node obtain f1 where
    f1: "py_float B (g raw ''engagement.bounce_rate'' (PFloat (Finite 0))) = Inr f1"
    unfolding expected_shape_def by blast
  from sh float_node obtain f2 where
    f2: "py_float B (g raw ''engagement.pages_per_visit'' (PFloat (Finite 0))) = Inr f2"
    unfolding expected_shape_def by blast
  from sh int_node obtain i3 where
    i3: "py_int B (g raw ''engagement.visits'' (PInt 0)) = Inr i3"
    unfolding expected_shape_def by blast
  from sh float_node obtain f4 where
    f4: "py_float B (g raw ''engagement.time_on_site'' (PFloat (Finite 0))) = Inr f4"
    unfolding expected_shape_def by blast
  show ?thesis
    unfolding normalize_real_response_def Let_def ov d1 d2 d3 d4 cr
    by (simp add: o1 o2 o3 o4 f1 f2 i3 f4 schema_keys_def)
qed

lemma split_char_nonempty: "split_char c s \<noteq> []"
  by (induction s) (auto split: list.splits)

lemma g_empty: "g [] p d = d"
proof -
  obtain k ks where "split_char CHR ''.'' p = k # ks"
    using split_char_nonempty [of "CHR ''.''" p] by (cases "split_char CHR ''.'' p") auto
  then show ?thesis
    using g_walk_none [where ps=ks and d=d] by (simp add: g_def dict_get_def)
qed

lemma spec_example_sources:
  "norm_sources B [] [(''search'', PFloat (Finite (1/2))), (''not_a_number'', PStr ''x'')]
     = Inr [(''Search'', PFloat (Finite (1/2)))]"
  by (simp add: title_def title_char_def lower_char_def iscased_def isupper_def with_bit5_def)

lemma g_stored: "g raw p d = (if stored raw p = PNone then d else stored raw p)"
  using g_walk_lookup [where cur = "PDict raw" and ps = "split_char CHR ''.'' p" and d = d]
  by (auto simp: g_def stored_def split: option.splits)

lemma bind_InrE:
  assumes "bind m f = Inr r"
  obtains x where "m = Inr x" "f x = Inr r"
  using assms by (cases m) auto

lemma normalize_real_response_unfold:
  assumes "normalize_real_response B now domain raw = Inr r"
  shows "\<exists>ev visits cs countries src sources kws keywords cr_name cr_code cr_rank
          ov_title ov_descr bounce pages vis tos.
     py_items (py_or (g raw ''traffic.estimated_monthly_visits'' (PDict [])) (PDict [])) = Inr ev
   \<and> normalized_visits B [] ev = Inr visits
   \<and> py_iter (py_or (g raw ''audience.top_countries'' (PList [])) (PList [])) = Inr cs
   \<and> norm_countries B [] cs = Inr countries
   \<and> py_items (py_or (g raw ''traffic.sources'' (PDict [])) (PDict [])) = Inr src
   \<and> norm_sources B [] src = Inr sources
   \<and> py_iter (py_or (g raw ''traffic.top_keywords'' (PList [])) (PList [])) = Inr kws
   \<and> norm_keywords B [] kws = Inr keywords
   \<and> py_get_default (py_or (g raw ''ranking.country'' PNone) (PDict [])) ''name'' (PStr []) = Inr cr_name
   \<and> py_get_default (py_or (g raw ''ranking.country'' PNone) (PDict [])) ''code'' (PStr []) = Inr cr_code
   \<and> py_get_default (py_or (g raw ''ranking.country'' PNone) (PDict [])) ''rank'' (PInt 0) = Inr cr_rank
   \<and> py_get (dict_get_default raw ''overview'' (PDict [])) ''title'' = Inr ov_title
   \<and> py_get (dict_get_default raw ''overview'' (PDict [])) ''description'' = Inr ov_descr
   \<and> py_float B (g raw ''engagement.bounce_rate'' (PFloat (Finite 0))) = Inr bounce
   \<and> py_float B (g raw ''engagement.pages_per_visit'' (PFloat (Finite 0))) = Inr pages
   \<and> py_int B (g raw ''engagement.visits'' (PInt 0)) = Inr vis
   \<and> py_float B (g raw ''engagement.time_on_site'' (PFloat (Finite 0))) = Inr tos
   \<and> r = [(''domain'', PStr domain),
         (''snapshotDate'', PStr (utc_now_iso now)),
         (''title'', py_or (py_or ov_title (g raw ''meta.title'' PNone)) (PStr [])),
         (''description'', py_or (py_or ov_descr (g raw ''meta.description'' PNone)) (PStr [])),
         (''category'', py_or (g raw ''classification.category'' PNone) (PStr [])),
         (''screenshot'', py_or (g raw ''meta.screenshot_url'' PNone) (PStr [])),
         (''globalRank'', g raw ''ranking.global.rank'' (PInt 0)),
         (''countryRank'',
            PDict [(''Country'', cr_name), (''CountryCode'', cr_code), (''Rank'', cr_rank)]),
         (''categoryRank'', PStr (str_of B (g raw ''ranking.category.rank'' (PStr [])))),
         (''estimatedMonthlyVisits'', PDict visits),
         (''bounceRate'', PStr (format_f B 4 bounce)),
         (''pagesPerVisit'', PStr (format_f B 2 pages)),
         (''visits'', PStr (str_of B (PInt vis))),
         (''timeOnSite'', PStr (format_f B 2 tos)),
         (''topCountryShares'', PList countries),
         (''trafficSources'', PDict sources),
         (''topKeywords'', PList keywords),
         (''isDataFromGA'', PBool (truthy (g raw ''meta.is_from_ga'' (PBool False)))),
         (''competitors'', g raw ''competition.competitors'' (PList []))]"
  using assms unfolding normalize_real_response_def Let_def
  by (elim bind_InrE) (simp only: sum.inject, blast)

lemma or_default: "\<not> truthy (stored raw p) \<Longrightarrow> py_or (g raw p d) d = d"
  by (simp add: g_stored py_or_def)

lemma or_none: "\<not> truthy (stored raw p) \<Longrightarrow> py_or (g raw p PNone) d = d"
  by (auto simp: g_stored py_or_def)

lemma g_missing: "stored raw p = PNone \<Longrightarrow> g raw p d = d"
  by (simp add: g_stored)

lemma g_none: "g raw p PNone = stored raw p"
  by (simp add: g_stored)

lemma overview_title:
  "py_get (dict_get_default raw ''overview'' (PDict [])) ''title'' = Inr v
   \<Longrightarrow> v = stored raw ''overview.title''"
  by (auto simp: stored_def dict_get_default_def dict_get_def split: option.splits pyval.splits)

lemma overview_description:
  "py_get (dict_get_default raw ''overview'' (PDict [])) ''description'' = Inr v
   \<Longrightarrow> v = stored raw ''overview.description''"
  by (auto simp: stored_def dict_get_default_def dict_get_def split: option.splits pyval.splits)

lemma country_name:
  "py_get_default (py_or (g raw ''ranking.country'' PNone) (PDict [])) ''name'' dflt = Inr v
   \<Longrightarrow> absent raw ''ranking.country.name'' \<Longrightarrow> v = dflt"
  by (auto simp: g_stored stored_def absent_def py_or_def dict_get_default_def
      split: option.splits pyval.splits if_splits)

lemma country_code:
  "py_get_default (py_or (g raw ''ranking.country'' PNone) (PDict [])) ''code'' dflt = Inr v
   \<Longrightarrow> absent raw ''ranking.country.code'' \<Longrightarrow> v = dflt"
  by (auto simp: g_stored stored_def absent_def py_or_def dict_get_default_def
      split: option.splits pyval.splits if_splits)

lemma country_rank:
  "py_get_default (py_or (g raw ''ranking.country'' PNone) (PDict [])) ''rank'' dflt = Inr v
   \<Longrightarrow> absent raw ''ranking.country.rank'' \<Longrightarrow> v = dflt"
  by (auto simp: g_stored stored_def absent_def py_or_def dict_get_default_def
      split: option.splits pyval.splits if_splits)

section \<open>Facts about the retry loop\<close>
















section \<open>Facts about the mock visit history\<close>

lemma days_in_month_ge: "28 \<le> days_in_month y m"
  by (simp add: days_in_month_def)

lemma date_sub_some:
  "1 \<le> d \<Longrightarrow> 1 \<le> m \<Longrightarrow> n < d + 28 * j \<Longrightarrow> j + 13 \<le> 12 * y + m
   \<Longrightarrow> \<exists>r. date_sub y m d n = Some r"
proof (induction j arbitrary: y m d n)
  case 0
  then show ?case by (subst date_sub.simps) simp
next
  case (Suc j)
  show ?case
  proof (cases "n < d")
    case True
    then show ?thesis by (subst date_sub.simps) simp
  next
    case False
    show ?thesis
    proof (cases "m \<le> 1")
      case True
      with Suc.prems have y: "\<not> y \<le> 1" by simp
      from Suc.prems False True y have "\<exists>r. date_sub (y - 1) 12 31 (n - d) = Some r"
        by (intro Suc.IH) simp_all
      with False True y Suc.prems(1) show ?thesis by (subst date_sub.simps) simp
    next
      case m: False
      from Suc.prems False m days_in_month_ge [of y "m - 1"]
      have "\<exists>r. date_sub y (m - 1) (days_in_month y (m - 1)) (n - d) = Some r"
        by (intro Suc.IH) simp_all
      with False m Suc.prems(1) show ?thesis by (subst date_sub.simps) simp
    qed
  qed
qed

lemma month_key_ok:
  assumes "2 \<le> year t" "1 \<le> month t" "i \<le> 2"
  shows "\<exists>k. month_key t i = Inr k"
proof -
  from assms have "\<exists>r. date_sub (year t) (month t) 1 (30 * i) = Some r"
    by (intro date_sub_some [where j = 3]) simp_all
  then show ?thesis by (auto simp: month_key_def)
qed

lemma build_estimated_visits_ok:
  assumes "2 \<le> year t" "1 \<le> month t"
  shows "\<exists>h. build_estimated_visits step t base = Inr h"
proof -
  from month_key_ok [OF assms, of 2] obtain k2 where k2: "month_key t 2 = Inr k2" by auto
  from month_key_ok [OF assms, of "Suc 0"] obtain k1 where k1: "month_key t (Suc 0) = Inr k1" by auto
  from month_key_ok [OF assms, of 0] obtain k0 where k0: "month_key t 0 = Inr k0" by auto
  show ?thesis by (simp add: build_estimated_visits_def month_keys_def k2 k1 k0)
qed

lemma build_estimated_visits_month:
  "year t' = year t \<Longrightarrow> month t' = month t \<Longrightarrow>
   build_estimated_visits step t' base = build_estimated_visits step t base"
  by (simp add: build_estimated_visits_def month_keys_def month_key_def)

lemma mock_path_value:
  assumes "build_estimated_visits (decay M) (clock W 0)
             (trunc (mock_number M (hash_to_int M clean) ''estimated_monthly_visits'')) = Inr h"
  shows "mock_path W B M clean = Inr (mock_record B M clean h (clock W 1))"
  using assms
  by (simp add: mock_path_def generate_mock_profile_def normalize_mock_response_def
      mock_record_def dict_item_def Let_def)

lemma mock_record_keys: "map fst (mock_record B M clean h now) = schema_keys"
  by (simp add: mock_record_def schema_keys_def Let_def)

lemma mock_record_history:
  "map_of (mock_record B M clean h now) ''estimatedMonthlyVisits'' = Some (PDict h)"
  by (simp add: mock_record_def Let_def)

lemma mock_record_snapshot:
  "k \<noteq> ''snapshotDate'' \<Longrightarrow>
   map_of (mock_record B M clean h now) k = map_of (mock_record B M clean h now') k"
  by (simp add: mock_record_def Let_def)

section \<open>Properties of the domain normalizer\<close>

text \<open>
  C6 (as the code has it).  \<open>normalize_domain\<close> always returns.  It trims white space
  before it removes the scheme, the path and the query, so white space that becomes
  leading or trailing only afterwards survives the first pass and is trimmed by the
  second: normalizing the result \<open>r\<close> once more gives \<open>strip r\<close>.  Normalization is
  therefore idempotent on every input whose normal form neither starts nor ends with
  white space.  The input \<open>scheme://Host.Example.COM/path?q=1\<close> gives
  \<open>host.example.com\<close>, and an empty or white-space-only input gives the empty string.
\<close>

theorem normalize_domain_twice:
  "(\<exists>r. normalize_domain s = Inr r \<and> normalize_domain r = Inr (strip r)
        \<and> (strip r = r \<longrightarrow> bind (normalize_domain s) normalize_domain = normalize_domain s))
   \<and> normalize_domain ''scheme://Host.Example.COM/path?q=1'' = Inr ''host.example.com''
   \<and> ((\<forall>c \<in> set s. isspace c) \<longrightarrow> normalize_domain s = Inr [])"
proof -
  have again: "normalize_domain (canonical s) = Inr (strip (canonical s))"
    using canonical_of_plain [of "canonical s"] canonical_chars [of _ s]
    by (simp add: normalize_domain_canonical)
  have ex: "normalize_domain ''scheme://Host.Example.COM/path?q=1'' = Inr ''host.example.com''"
    by (simp add: normalize_domain_def Let_def lower_def lower_char_def isupper_def
        with_bit5_def strip_def isspace_def)
  have blank: "(\<forall>c \<in> set s. isspace c) \<longrightarrow> normalize_domain s = Inr []"
    by (auto simp: normalize_domain_def Let_def strip_all_space lower_def)
  from again ex blank show ?thesis
    by (simp add: normalize_domain_canonical)
qed

theorem normalize_domain_twice_witness:
  "isspace CHR '' ''
   \<and> normalize_domain ''  '' = Inr []
   \<and> strip [] = ([] :: string)
   \<and> bind (normalize_domain ''  '') normalize_domain = normalize_domain ''  ''"
proof -
  have sp: "\<forall>c \<in> set ''  ''. isspace c"
    by (simp add: isspace_def)
  from normalize_domain_twice [of "''  ''"] sp have r: "normalize_domain ''  '' = Inr []"
    by blast
  from normalize_domain_twice [of "''  ''"] r
  have "strip [] = ([] :: string) \<longrightarrow>
        bind (normalize_domain ''  '') normalize_domain = normalize_domain ''  ''"
    by auto
  moreover have "strip [] = ([] :: string)" by (simp add: strip_def)
  ultimately show ?thesis using sp r by simp
qed

theorem normalize_domain_not_idempotent:
  "bind (normalize_domain ''http:// a'') normalize_domain \<noteq> normalize_domain ''http:// a''"
  by (simp add: normalize_domain_def Let_def lower_def lower_char_def isupper_def
      with_bit5_def strip_def isspace_def)

section \<open>Properties of remote normalization\<close>

text \<open>
  C9.  For every payload and dotted path, \<open>g\<close> returns the caller's default when a node
  on the way is missing or is not a mapping, and also when the value stored at the full
  path is an explicit \<open>null\<close>; otherwise it returns the stored value.  A \<open>null\<close> leaf
  and an absent field give the same result.
\<close>

theorem g_null_is_absent:
  "(lookup_path (PDict raw) (split_char CHR ''.'' path) = None \<longrightarrow> g raw path dflt = dflt)
   \<and> (lookup_path (PDict raw) (split_char CHR ''.'' path) = Some PNone \<longrightarrow> g raw path dflt = dflt)
   \<and> (\<forall>v. lookup_path (PDict raw) (split_char CHR ''.'' path) = Some v \<and> v \<noteq> PNone
          \<longrightarrow> g raw path dflt = v)"
  using g_walk_lookup [where cur="PDict raw" and ps="split_char CHR ''.'' path" and d=dflt]
  by (auto simp: g_def)

theorem g_null_is_absent_witness:
  "lookup_path (PDict [(''a'', PInt 1)]) (split_char CHR ''.'' ''a.b'') = None
   \<and> g [(''a'', PInt 1)] ''a.b'' (PInt 7) = PInt 7
   \<and> lookup_path (PDict [(''a'', PDict [(''b'', PNone)])]) (split_char CHR ''.'' ''a.b'') = Some PNone
   \<and> g [(''a'', PDict [(''b'', PNone)])] ''a.b'' (PInt 7) = PInt 7
   \<and> lookup_path (PDict [(''a'', PDict [(''b'', PInt 2)])]) (split_char CHR ''.'' ''a.b'') = Some (PInt 2)
   \<and> g [(''a'', PDict [(''b'', PInt 2)])] ''a.b'' (PInt 7) = PInt 2"
proof -
  have 1: "lookup_path (PDict [(''a'', PInt 1)]) (split_char CHR ''.'' ''a.b'') = None" by simp
  have 2: "lookup_path (PDict [(''a'', PDict [(''b'', PNone)])]) (split_char CHR ''.'' ''a.b'') = Some PNone" by simp
  have 3: "lookup_path (PDict [(''a'', PDict [(''b'', PInt 2)])]) (split_char CHR ''.'' ''a.b'') = Some (PInt 2)" by simp
  from 1 g_null_is_absent [of "[(''a'', PInt 1)]" "''a.b''" "PInt 7"]
  have a: "g [(''a'', PInt 1)] ''a.b'' (PInt 7) = PInt 7" by blast
  from 2 g_null_is_absent [of "[(''a'', PDict [(''b'', PNone)])]" "''a.b''" "PInt 7"]
  have b: "g [(''a'', PDict [(''b'', PNone)])] ''a.b'' (PInt 7) = PInt 7" by blast
  from 3 g_null_is_absent [of "[(''a'', PDict [(''b'', PInt 2)])]" "''a.b''" "PInt 7"]
  have c: "g [(''a'', PDict [(''b'', PInt 2)])] ''a.b'' (PInt 7) = PInt 2" by blast
  from 1 2 3 a b c show ?thesis by blast
qed



text \<open>
  C5 (as the code has it).  In the loop over \<open>traffic.top_keywords\<close>, the name of an
  entry is its \<open>keyword\<close> or, when that is absent or falsy, its \<open>name\<close>; its value is its
  \<open>visits\<close> or, when that is absent or falsy, its \<open>value\<close>; its \<open>cpc\<close> is 0.0 when absent
  or falsy.  An entry is emitted exactly when it has both a truthy name and a numeric
  value: when the loop returns, its result lists, in order, the entries with both, each
  as \<open>name\<close>, \<open>int(value)\<close> and \<open>float(cpc)\<close>; an entry that lacks either is dropped.
\<close>

theorem keywords_kept_iff_name_and_number:
  "norm_keywords B [] (map PDict ds) = Inr out \<Longrightarrow>
   list_all2 (\<lambda>e d. \<exists>i f. py_int B (kw_value d) = Inr i \<and> py_float B (kw_cpc d) = Inr f
                \<and> e = PDict [(''name'', kw_name d), (''value'', PInt i), (''cpc'', PFloat f)])
     out (filter kw_kept ds)"
  using keywords_run [of B "[]" ds out] by simp

theorem keywords_kept_iff_name_and_number_witness:
  "norm_keywords no_text []
     (map PDict [[(''keyword'', PStr ''shoes''), (''visits'', PInt 120)],
                 [(''keyword'', PStr ''boots'')]])
     = Inr [PDict [(''name'', PStr ''shoes''), (''value'', PInt 120), (''cpc'', PFloat (Finite 0))]]
   \<and> filter kw_kept [[(''keyword'', PStr ''shoes''), (''visits'', PInt 120)],
                      [(''keyword'', PStr ''boots'')]]
       = [[(''keyword'', PStr ''shoes''), (''visits'', PInt 120)]]
   \<and> list_all2 (\<lambda>e d. \<exists>i f. py_int no_text (kw_value d) = Inr i
                  \<and> py_float no_text (kw_cpc d) = Inr f
                  \<and> e = PDict [(''name'', kw_name d), (''value'', PInt i), (''cpc'', PFloat f)])
       [PDict [(''name'', PStr ''shoes''), (''value'', PInt 120), (''cpc'', PFloat (Finite 0))]]
       (filter kw_kept [[(''keyword'', PStr ''shoes''), (''visits'', PInt 120)],
                        [(''keyword'', PStr ''boots'')]])"
proof -
  have run: "norm_keywords no_text []
     (map PDict [[(''keyword'', PStr ''shoes''), (''visits'', PInt 120)],
                 [(''keyword'', PStr ''boots'')]])
     = Inr [PDict [(''name'', PStr ''shoes''), (''value'', PInt 120), (''cpc'', PFloat (Finite 0))]]"
    by (simp add: py_or_def dict_get_def)
  have kept: "filter kw_kept [[(''keyword'', PStr ''shoes''), (''visits'', PInt 120)],
                      [(''keyword'', PStr ''boots'')]]
       = [[(''keyword'', PStr ''shoes''), (''visits'', PInt 120)]]"
    by (simp add: kw_kept_def kw_name_def kw_value_def py_or_def dict_get_def)
  from keywords_kept_iff_name_and_number [OF run] run kept show ?thesis by blast
qed

theorem keyword_with_name_only_is_dropped:
  "norm_keywords no_text [] [PDict [(''keyword'', PStr ''shoes'')]] = Inr []
   \<and> norm_keywords no_text [] [PDict [(''visits'', PInt 5)]] = Inr []"
  by (simp add: py_or_def dict_get_def)

text \<open>
  C3 (as the code has it).  The normalizer tolerates missing fields, not wrong-typed
  nodes.  For every payload in which each node it consults is absent, \<open>null\<close> or of the
  expected shape (\<open>overview\<close> a mapping or absent; the two \<open>traffic\<close> mappings mappings;
  \<open>top_countries\<close> and \<open>top_keywords\<close> sequences of mappings; \<open>ranking.country\<close> a
  mapping; the \<open>engagement\<close> values, the \<open>cpc\<close> and the kept numbers finite numbers), it
  returns a record with the nineteen keys of the schema without raising.  For every
  payload, whenever it returns, \<open>domain\<close> and \<open>snapshotDate\<close> are the canonical domain and
  the clock reading, and every field whose node is missing has its documented default:
  the fields read with \<open>g(path, default)\<close> when nothing or \<open>null\<close> is stored at the path,
  the fields read with \<open>or\<close> when what is stored is absent, \<open>null\<close> or falsy, and each
  sub-field of \<open>countryRank\<close> when its key is absent.  On the empty payload every field
  has its default.
\<close>

theorem normalize_real_response_tolerates_missing:
  "(expected_shape raw \<longrightarrow>
      (\<exists>r. normalize_real_response B now domain raw = Inr r \<and> map fst r = schema_keys))
   \<and> (\<forall>r. normalize_real_response B now domain raw = Inr r \<longrightarrow>
        map fst r = schema_keys
      \<and> map_of r ''domain'' = Some (PStr domain)
      \<and> map_of r ''snapshotDate'' = Some (PStr (utc_now_iso now))
      \<and> (\<not> truthy (stored raw ''overview.title'') \<and> \<not> truthy (stored raw ''meta.title'')
          \<longrightarrow> map_of r ''title'' = Some (PStr []))
      \<and> (\<not> truthy (stored raw ''overview.description'') \<and> \<not> truthy (stored raw ''meta.description'')
          \<longrightarrow> map_of r ''description'' = Some (PStr []))
      \<and> (\<not> truthy (stored raw ''classification.category'') \<longrightarrow> map_of r ''category'' = Some (PStr []))
      \<and> (\<not> truthy (stored raw ''meta.screenshot_url'') \<longrightarrow> map_of r ''screenshot'' = Some (PStr []))
      \<and> (stored raw ''ranking.global.rank'' = PNone \<longrightarrow> map_of r ''globalRank'' = Some (PInt 0))
      \<and> (\<exists>cn cc ck.
            map_of r ''countryRank''
              = Some (PDict [(''Country'', cn), (''CountryCode'', cc), (''Rank'', ck)])
          \<and> (absent raw ''ranking.country.name'' \<longrightarrow> cn = PStr [])
          \<and> (absent raw ''ranking.country.code'' \<longrightarrow> cc = PStr [])
          \<and> (absent raw ''ranking.country.rank'' \<longrightarrow> ck = PInt 0))
      \<and> (stored raw ''ranking.category.rank'' = PNone
          \<longrightarrow> map_of r ''categoryRank'' = Some (PStr (str_of B (PStr []))))
      \<and> (\<not> truthy (stored raw ''traffic.estimated_monthly_visits'')
          \<longrightarrow> map_of r ''estimatedMonthlyVisits'' = Some (PDict []))
      \<and> (stored raw ''engagement.bounce_rate'' = PNone
          \<longrightarrow> map_of r ''bounceRate'' = Some (PStr (format_f B 4 (Finite 0))))
      \<and> (stored raw ''engagement.pages_per_visit'' = PNone
          \<longrightarrow> map_of r ''pagesPerVisit'' = Some (PStr (format_f B 2 (Finite 0))))
      \<and> (stored raw ''engagement.visits'' = PNone
          \<longrightarrow> map_of r ''visits'' = Some (PStr (str_of B (PInt 0))))
      \<and> (stored raw ''engagement.time_on_site'' = PNone
          \<longrightarrow> map_of r ''timeOnSite'' = Some (PStr (format_f B 2 (Finite 0))))
      \<and> (\<not> truthy (stored raw ''audience.top_countries'')
          \<longrightarrow> map_of r ''topCountryShares'' = Some (PList []))
      \<and> (\<not> truthy (stored raw ''traffic.sources'') \<longrightarrow> map_of r ''trafficSources'' = Some (PDict []))
      \<and> (\<not> truthy (stored raw ''traffic.top_keywords'') \<longrightarrow> map_of r ''topKeywords'' = Some (PList []))
      \<and> (\<not> truthy (stored raw ''meta.is_from_ga'') \<longrightarrow> map_of r ''isDataFromGA'' = Some (PBool False))
      \<and> (stored raw ''competition.competitors'' = PNone
          \<longrightarrow> map_of r ''competitors'' = Some (PList [])))
   \<and> normalize_real_response B now domain [] =
       Inr [(''domain'', PStr domain),
            (''snapshotDate'', PStr (utc_now_iso now)),
            (''title'', PStr []),
            (''description'', PStr []),
            (''category'', PStr []),
            (''screenshot'', PStr []),
            (''globalRank'', PInt 0),
            (''countryRank'',
               PDict [(''Country'', PStr []), (''CountryCode'', PStr []), (''Rank'', PInt 0)]),
            (''categoryRank'', PStr (str_of B (PStr []))),
            (''estimatedMonthlyVisits'', PDict []),
            (''bounceRate'', PStr (format_f B 4 (Finite 0))),
            (''pagesPerVisit'', PStr (format_f B 2 (Finite 0))),
            (''visits'', PStr (str_of B (PInt 0))),
            (''timeOnSite'', PStr (format_f B 2 (Finite 0))),
            (''topCountryShares'', PList []),
            (''trafficSources'', PDict []),
            (''topKeywords'', PList []),
            (''isDataFromGA'', PBool False),
            (''competitors'', PList [])]"
proof -
  have fields:
       "map fst r = schema_keys
     \<and> map_of r ''domain'' = Some (PStr domain)
     \<and> map_of r ''snapshotDate'' = Some (PStr (utc_now_iso now))
     \<and> (\<not> truthy (stored raw ''overview.title'') \<and> \<not> truthy (stored raw ''meta.title'')
         \<longrightarrow> map_of r ''title'' = Some (PStr []))
     \<and> (\<not> truthy (stored raw ''overview.description'') \<and> \<not> truthy (stored raw ''meta.description'')
         \<longrightarrow> map_of r ''description'' = Some (PStr []))
     \<and> (\<not> truthy (stored raw ''classification.category'') \<longrightarrow> map_of r ''category'' = Some (PStr []))
     \<and> (\<not> truthy (stored raw ''meta.screenshot_url'') \<longrightarrow> map_of r ''screenshot'' = Some (PStr []))
     \<and> (stored raw ''ranking.global.rank'' = PNone \<longrightarrow> map_of r ''globalRank'' = Some (PInt 0))
     \<and> (\<exists>cn cc ck.
           map_of r ''countryRank''
             = Some (PDict [(''Country'', cn), (''CountryCode'', cc), (''Rank'', ck)])
         \<and> (absent raw ''ranking.country.name'' \<longrightarrow> cn = PStr [])
         \<and> (absent raw ''ranking.country.code'' \<longrightarrow> cc = PStr [])
         \<and> (absent raw ''ranking.country.rank'' \<longrightarrow> ck = PInt 0))
     \<and> (stored raw ''ranking.category.rank'' = PNone
         \<longrightarrow> map_of r ''categoryRank'' = Some (PStr (str_of B (PStr []))))
     \<and> (\<not> truthy (stored raw ''traffic.estimated_monthly_visits'')
         \<longrightarrow> map_of r ''estimatedMonthlyVisits'' = Some (PDict []))
     \<and> (stored raw ''engagement.bounce_rate'' = PNone
         \<longrightarrow> map_of r ''bounceRate'' = Some (PStr (format_f B 4 (Finite 0))))
     \<and> (stored raw ''engagement.pages_per_visit'' = PNone
         \<longrightarrow> map_of r ''pagesPerVisit'' = Some (PStr (format_f B 2 (Finite 0))))
     \<and> (stored raw ''engagement.visits'' = PNone
         \<longrightarrow> map_of r ''visits'' = Some (PStr (str_of B (PInt 0))))
     \<and> (stored raw ''engagement.time_on_site'' = PNone
         \<longrightarrow> map_of r ''timeOnSite'' = Some (PStr (format_f B 2 (Finite 0))))
     \<and> (\<not> truthy (stored raw ''audience.top_countries'')
         \<longrightarrow> map_of r ''topCountryShares'' = Some (PList []))
     \<and> (\<not> truthy (stored raw ''traffic.sources'') \<longrightarrow> map_of r ''trafficSources'' = Some (PDict []))
     \<and> (\<not> truthy (stored raw ''traffic.top_keywords'') \<longrightarrow> map_of r ''topKeywords'' = Some (PList []))
     \<and> (\<not> truthy (stored raw ''meta.is_from_ga'') \<longrightarrow> map_of r ''isDataFromGA'' = Some (PBool False))
     \<and> (stored raw ''competition.competitors'' = PNone
         \<longrightarrow> map_of r ''competitors'' = Some (PList []))"
    if run: "normalize_real_response B now domain raw = Inr r" for r
  proof -
    from normalize_real_response_unfold [OF run]
    obtain ev visits cs countries src sources kws kwds cr_name cr_code cr_rank
        ov_title ov_descr bounce pages vis tos
      where ev: "py_items (py_or (g raw ''traffic.estimated_monthly_visits'' (PDict [])) (PDict []))
                  = Inr ev"
        and vs: "normalized_visits B [] ev = Inr visits"
        and cs: "py_iter (py_or (g raw ''audience.top_countries'' (PList [])) (PList [])) = Inr cs"
        and cos: "norm_countries B [] cs = Inr countries"
        and src: "py_items (py_or (g raw ''traffic.sources'' (PDict [])) (PDict [])) = Inr src"
        and srs: "norm_sources B [] src = Inr sources"
        and kws: "py_iter (py_or (g raw ''traffic.top_keywords'' (PList [])) (PList [])) = Inr kws"
        and kys: "norm_keywords B [] kws = Inr kwds"
        and cn: "py_get_default (py_or (g raw ''ranking.country'' PNone) (PDict [])) ''name'' (PStr [])
                  = Inr cr_name"
        and cc: "py_get_default (py_or (g raw ''ranking.country'' PNone) (PDict [])) ''code'' (PStr [])
                  = Inr cr_code"
        and ck: "py_get_default (py_or (g raw ''ranking.country'' PNone) (PDict [])) ''rank'' (PInt 0)
                  = Inr cr_rank"
        and ot: "py_get (dict_get_default raw ''overview'' (PDict [])) ''title'' = Inr ov_title"
        and od: "py_get (dict_get_default raw ''overview'' (PDict [])) ''description'' = Inr ov_descr"
        and b: "py_float B (g raw ''engagement.bounce_rate'' (PFloat (Finite 0))) = Inr bounce"
        and p: "py_float B (g raw ''engagement.pages_per_visit'' (PFloat (Finite 0))) = Inr pages"
        and v: "py_int B (g raw ''engagement.visits'' (PInt 0)) = Inr vis"
        and t: "py_float B (g raw ''engagement.time_on_site'' (PFloat (Finite 0))) = Inr tos"
        and r: "r = [(''domain'', PStr domain),
         (''snapshotDate'', PStr (utc_now_iso now)),
         (''title'', py_or (py_or ov_title (g raw ''meta.title'' PNone)) (PStr [])),
         (''description'', py_or (py_or ov_descr (g raw ''meta.description'' PNone)) (PStr [])),
         (''category'', py_or (g raw ''classification.category'' PNone) (PStr [])),
         (''screenshot'', py_or (g raw ''meta.screenshot_url'' PNone) (PStr [])),
         (''globalRank'', g raw ''ranking.global.rank'' (PInt 0)),
         (''countryRank'',
            PDict [(''Country'', cr_name), (''CountryCode'', cr_code), (''Rank'', cr_rank)]),
         (''categoryRank'', PStr (str_of B (g raw ''ranking.category.rank'' (PStr [])))),
         (''estimatedMonthlyVisits'', PDict visits),
         (''bounceRate'', PStr (format_f B 4 bounce)),
         (''pagesPerVisit'', PStr (format_f B 2 pages)),
         (''visits'', PStr (str_of B (PInt vis))),
         (''timeOnSite'', PStr (format_f B 2 tos)),
         (''topCountryShares'', PList countries),
         (''trafficSources'', PDict sources),
         (''topKeywords'', PList kwds),
         (''isDataFromGA'', PBool (truthy (g raw ''meta.is_from_ga'' (PBool False)))),
         (''competitors'', g raw ''competition.competitors'' (PList []))]"
      by blast
    have f_keys: "map fst r = schema_keys"
      by (simp add: r schema_keys_def)
    have f_dom: "map_of r ''domain'' = Some (PStr domain)"
      by (simp add: r)
    have f_snap: "map_of r ''snapshotDate'' = Some (PStr (utc_now_iso now))"
      by (simp add: r)
    have f_title: "(\<not> truthy (stored raw ''overview.title'') \<and> \<not> truthy (stored raw ''meta.title'')
         \<longrightarrow> map_of r ''title'' = Some (PStr []))"
      using overview_title [OF ot] by (auto simp: r py_or_def g_none)
    have f_descr: "(\<not> truthy (stored raw ''overview.description'') \<and> \<not> truthy (stored raw ''meta.description'')
         \<longrightarrow> map_of r ''description'' = Some (PStr []))"
      using overview_description [OF od] by (auto simp: r py_or_def g_none)
    have f_cat: "(\<not> truthy (stored raw ''classification.category'') \<longrightarrow> map_of r ''category'' = Some (PStr []))"
      by (simp add: r or_none)
    have f_shot: "(\<not> truthy (stored raw ''meta.screenshot_url'') \<longrightarrow> map_of r ''screenshot'' = Some (PStr []))"
      by (simp add: r or_none)
    have f_grank: "(stored raw ''ranking.global.rank'' = PNone \<longrightarrow> map_of r ''globalRank'' = Some (PInt 0))"
      by (simp add: r g_missing)
    have f_crank: "(\<exists>cn cc ck.
           map_of r ''countryRank''
             = Some (PDict [(''Country'', cn), (''CountryCode'', cc), (''Rank'', ck)])
         \<and> (absent raw ''ranking.country.name'' \<longrightarrow> cn = PStr [])
         \<and> (absent raw ''ranking.country.code'' \<longrightarrow> cc = PStr [])
         \<and> (absent raw ''ranking.country.rank'' \<longrightarrow> ck = PInt 0))"
      using country_name [OF cn] country_code [OF cc] country_rank [OF ck] by (simp add: r)
    have f_catrank: "(stored raw ''ranking.category.rank'' = PNone
         \<longrightarrow> map_of r ''categoryRank'' = Some (PStr (str_of B (PStr []))))"
      by (simp add: r g_missing)
    have f_hist: "(\<not> truthy (stored raw ''traffic.estimated_monthly_visits'')
         \<longrightarrow> map_of r ''estimatedMonthlyVisits'' = Some (PDict []))"
      using ev vs by (auto simp: r or_default)
    have f_bounce: "(stored raw ''engagement.bounce_rate'' = PNone
         \<longrightarrow> map_of r ''bounceRate'' = Some (PStr (format_f B 4 (Finite 0))))"
      using b by (auto simp: r g_missing)
    have f_pages: "(stored raw ''engagement.pages_per_visit'' = PNone
         \<longrightarrow> map_of r ''pagesPerVisit'' = Some (PStr (format_f B 2 (Finite 0))))"
      using p by (auto simp: r g_missing)
    have f_visits: "(stored raw ''engagement.visits'' = PNone
         \<longrightarrow> map_of r ''visits'' = Some (PStr (str_of B (PInt 0))))"
      using v by (auto simp: r g_missing)
    have f_tos: "(stored raw ''engagement.time_on_site'' = PNone
         \<longrightarrow> map_of r ''timeOnSite'' = Some (PStr (format_f B 2 (Finite 0))))"
      using t by (auto simp: r g_missing)
    have f_shares: "(\<not> truthy (stored raw ''audience.top_countries'')
         \<longrightarrow> map_of r ''topCountryShares'' = Some (PList []))"
      using cs cos by (auto simp: r or_default)
    have f_sources: "(\<not> truthy (stored raw ''traffic.sources'') \<longrightarrow> map_of r ''trafficSources'' = Some (PDict []))"
      using src srs by (auto simp: r or_default)
    have f_kwds: "(\<not> truthy (stored raw ''traffic.top_keywords'') \<longrightarrow> map_of r ''topKeywords'' = Some (PList []))"
      using kws kys by (auto simp: r or_default)
    have f_ga: "(\<not> truthy (stored raw ''meta.is_from_ga'') \<longrightarrow> map_of r ''isDataFromGA'' = Some (PBool False))"
      by (auto simp: r g_stored)
    have f_comp: "(stored raw ''competition.competitors'' = PNone
         \<longrightarrow> map_of r ''competitors'' = Some (PList []))"
      by (simp add: r g_missing)
    show ?thesis
      by (intro conjI f_keys f_dom f_snap f_title f_descr f_cat f_shot f_grank f_crank f_catrank
          f_hist f_bounce f_pages f_visits f_tos f_shares f_sources f_kwds f_ga f_comp)
  qed
  have empty: "normalize_real_response B now domain [] =
       Inr [(''domain'', PStr domain),
            (''snapshotDate'', PStr (utc_now_iso now)),
            (''title'', PStr []),
            (''description'', PStr []),
            (''category'', PStr []),
            (''screenshot'', PStr []),
            (''globalRank'', PInt 0),
            (''countryRank'',
               PDict [(''Country'', PStr []), (''CountryCode'', PStr []), (''Rank'', PInt 0)]),
            (''categoryRank'', PStr (str_of B (PStr []))),
            (''estimatedMonthlyVisits'', PDict []),
            (''bounceRate'', PStr (format_f B 4 (Finite 0))),
            (''pagesPerVisit'', PStr (format_f B 2 (Finite 0))),
            (''visits'', PStr (str_of B (PInt 0))),
            (''timeOnSite'', PStr (format_f B 2 (Finite 0))),
            (''topCountryShares'', PList []),
            (''trafficSources'', PDict []),
            (''topKeywords'', PList []),
            (''isDataFromGA'', PBool False),
            (''competitors'', PList [])]"
    unfolding normalize_real_response_def Let_def g_empty
    by (simp add: py_or_def dict_get_default_def dict_get_def)
  from normalize_real_response_shape [of raw B now domain] fields empty
  show ?thesis by blast
qed

theorem normalize_real_response_tolerates_missing_witness:
  "expected_shape
     [(''traffic'', PDict [(''sources'',
         PDict [(''search'', PFloat (Finite (1/2))), (''not_a_number'', PStr ''x'')])])]
   \<and> stored
     [(''traffic'', PDict [(''sources'',
         PDict [(''search'', PFloat (Finite (1/2))), (''not_a_number'', PStr ''x'')])])] ''ranking.global.rank'' = PNone
   \<and> \<not> truthy (stored
     [(''traffic'', PDict [(''sources'',
         PDict [(''search'', PFloat (Finite (1/2))), (''not_a_number'', PStr ''x'')])])] ''audience.top_countries'')
   \<and> absent
     [(''traffic'', PDict [(''sources'',
         PDict [(''search'', PFloat (Finite (1/2))), (''not_a_number'', PStr ''x'')])])] ''ranking.country.name''
   \<and> (\<exists>r. normalize_real_response no_text noon ''example.com''
     [(''traffic'', PDict [(''sources'',
         PDict [(''search'', PFloat (Finite (1/2))), (''not_a_number'', PStr ''x'')])])] = Inr r
        \<and> map fst r = schema_keys
        \<and> map_of r ''globalRank'' = Some (PInt 0)
        \<and> map_of r ''topCountryShares'' = Some (PList [])
        \<and> (\<exists>cc ck. map_of r ''countryRank''
              = Some (PDict [(''Country'', PStr []), (''CountryCode'', cc), (''Rank'', ck)])))"
proof -
  let ?P = "[(''traffic'', PDict [(''sources'',
         PDict [(''search'', PFloat (Finite (1/2))), (''not_a_number'', PStr ''x'')])])]"
  have sh: "expected_shape ?P"
    by (simp add: expected_shape_def g_def dict_get_def dict_get_default_def
        number_or_skipped_def absent_or_number_def)
  have m1: "stored ?P ''ranking.global.rank'' = PNone"
    by (simp add: stored_def)
  have m2: "\<not> truthy (stored ?P ''audience.top_countries'')"
    by (simp add: stored_def)
  have m3: "absent ?P ''ranking.country.name''"
    by (simp add: absent_def)
  note T = normalize_real_response_tolerates_missing [of ?P no_text noon "''example.com''"]
  from T [THEN conjunct1, rule_format, OF sh] obtain r where
    run: "normalize_real_response no_text noon ''example.com'' ?P = Inr r"
    and keys: "map fst r = schema_keys"
    by blast
  note F = T [THEN conjunct2, THEN conjunct1, rule_format, OF run]
  from F [THEN conjunct2, THEN conjunct2, THEN conjunct2, THEN conjunct2, THEN conjunct2, THEN conjunct2, THEN conjunct2, THEN conjunct1] m1
  have g: "map_of r ''globalRank'' = Some (PInt 0)" by simp
  from F [THEN conjunct2, THEN conjunct2, THEN conjunct2, THEN conjunct2, THEN conjunct2, THEN conjunct2, THEN conjunct2, THEN conjunct2, THEN conjunct2, THEN conjunct2, THEN conjunct2, THEN conjunct2, THEN conjunct2, THEN conjunct2, THEN conjunct2, THEN conjunct1] m2
  have s: "map_of r ''topCountryShares'' = Some (PList [])" by simp
  from F [THEN conjunct2, THEN conjunct2, THEN conjunct2, THEN conjunct2, THEN conjunct2, THEN conjunct2, THEN conjunct2, THEN conjunct2, THEN conjunct1] m3
  have c: "\<exists>cc ck. map_of r ''countryRank''
              = Some (PDict [(''Country'', PStr []), (''CountryCode'', cc), (''Rank'', ck)])"
    by blast
  show ?thesis
    by (intro conjI exI [of _ r]) (rule sh m1 m2 m3 run keys g s c)+
qed

theorem normalize_real_response_raises:
  "normalize_real_response no_text noon ''example.com''
     [(''audience'', PDict [(''top_countries'', PList [PInt 1])])] = Inl AttributeError
   \<and> normalize_real_response no_text noon ''example.com''
     [(''overview'', PNone)] = Inl AttributeError"
  by (simp add: normalize_real_response_def g_def dict_get_def dict_get_default_def py_or_def)

section \<open>Properties of the entry point\<close>

text \<open>
  C7.  \<open>normalize_domain\<close> never raises: it returns a string for every input, the empty
  string for an input that normalizes to nothing.  For every input whose normalization
  is empty, \<open>get_domain_data\<close> raises the invalid-domain error with no effect before it:
  no log record of either path, no request, no sleep.
\<close>

theorem invalid_domain_rejected_first:
  "(\<exists>d. normalize_domain domain = Inr d)
   \<and> (normalize_domain domain = Inr [] \<longrightarrow>
        get_domain_data cfg W B M domain = (Inl (InvalidDomain domain), []))"
  by (simp add: normalize_domain_canonical get_domain_data_def)

theorem invalid_domain_rejected_first_witness:
  "normalize_domain ''https:///pricing'' = Inr []
   \<and> get_domain_data example_config offline_world no_text example_tables ''https:///pricing''
       = (Inl (InvalidDomain ''https:///pricing''), [])"
proof -
  have n: "normalize_domain ''https:///pricing'' = Inr []"
    by (simp add: normalize_domain_def Let_def lower_def lower_char_def isupper_def
        with_bit5_def strip_def isspace_def)
  with invalid_domain_rejected_first
    [of "''https:///pricing''" example_config offline_world no_text example_tables]
  show ?thesis by blast
qed



section \<open>Properties of the remote fetcher\<close>



section \<open>Properties of the mock visit history\<close>

text \<open>
  C2 (where the code departs from it).  Walking back in steps of 30 days from the first of
  the month skips February: on 15 March 2028 the steps of 30 and of 60 days both land in
  January, so the history has two keys, \<open>2028-01-01\<close> and \<open>2028-03-01\<close>; on 15 March 2027
  the three keys are December, January and March.  In November 2026 the keys are the
  current month and the two before it.
\<close>

theorem march_history_skips_february:
  "build_estimated_visits step
       \<lparr>year = 2028, month = 3, day = 15, hour = 12, minute = 0, second = 0\<rparr> base
     = Inr [(''2028-01-01'', PInt (max 1000 (trunc (step (step (real_of_int base)))))),
            (''2028-03-01'', PInt (max 1000 (trunc (real_of_int base))))]
   \<and> month_keys \<lparr>year = 2027, month = 3, day = 15, hour = 12, minute = 0, second = 0\<rparr>
     = Inr [''2026-12-01'', ''2027-01-01'', ''2027-03-01'']
   \<and> month_keys \<lparr>year = 2026, month = 11, day = 3, hour = 12, minute = 0, second = 0\<rparr>
     = Inr [''2026-09-01'', ''2026-10-01'', ''2026-11-01'']"
  by (simp add: build_estimated_visits_def month_keys_def month_key_def date_sub.simps
      days_in_month_def is_leap_def pad4_def pad2_def digit_def)

section \<open>Properties of the mock path\<close>

text \<open>
  C1.  In mock mode, for every input with a non-empty canonical domain and a clock
  reading of year 2 or later, \<open>get_domain_data\<close> returns a record with the keys of the
  schema and raises nothing; its only effect is the debug record of the mock path (no
  request, no sleep), whatever the environment and the transport are.  Two calls whose
  clock readings fall in the same calendar month return records that agree on every key
  but \<open>snapshotDate\<close>, in particular on \<open>estimatedMonthlyVisits\<close>.
\<close>

theorem mock_path_deterministic_within_month:
  assumes mock: "use_mock_data cfg"
    and dom: "normalize_domain domain = Inr clean" "clean \<noteq> []"
    and valid: "2 \<le> year (clock W 0)" "1 \<le> month (clock W 0)"
    and same: "year (clock W' 0) = year (clock W 0)" "month (clock W' 0) = month (clock W 0)"
  shows "\<exists>r r'.
      get_domain_data cfg W B M domain = (Inr r, [LogDebug ''Using mock traffic profile for %s''])
    \<and> get_domain_data cfg W' B M domain = (Inr r', [LogDebug ''Using mock traffic profile for %s''])
    \<and> map fst r = schema_keys \<and> map fst r' = schema_keys
    \<and> map_of r ''estimatedMonthlyVisits'' = map_of r' ''estimatedMonthlyVisits''
    \<and> (\<forall>k. k \<noteq> ''snapshotDate'' \<longrightarrow> map_of r k = map_of r' k)"
proof -
  define base where
    "base = trunc (mock_number M (hash_to_int M clean) ''estimated_monthly_visits'')"
  from build_estimated_visits_ok [OF valid] obtain h where
    h: "build_estimated_visits (decay M) (clock W 0) base = Inr h" by blast
  from build_estimated_visits_month [OF same] h have
    h': "build_estimated_visits (decay M) (clock W' 0) base = Inr h" by simp
  have r: "get_domain_data cfg W B M domain =
      (Inr (mock_record B M clean h (clock W 1)), [LogDebug ''Using mock traffic profile for %s''])"
    using mock dom
    by (simp add: get_domain_data_def mock_path_value [OF h [unfolded base_def]])
  have r': "get_domain_data cfg W' B M domain =
      (Inr (mock_record B M clean h (clock W' 1)), [LogDebug ''Using mock traffic profile for %s''])"
    using mock dom
    by (simp add: get_domain_data_def mock_path_value [OF h' [unfolded base_def]])
  show ?thesis
  proof (intro exI conjI allI impI)
    show "get_domain_data cfg W B M domain =
      (Inr (mock_record B M clean h (clock W 1)), [LogDebug ''Using mock traffic profile for %s''])"
      by (rule r)
    show "get_domain_data cfg W' B M domain =
      (Inr (mock_record B M clean h (clock W' 1)), [LogDebug ''Using mock traffic profile for %s''])"
      by (rule r')
    show "map fst (mock_record B M clean h (clock W 1)) = schema_keys"
      by (rule mock_record_keys)
    show "map fst (mock_record B M clean h (clock W' 1)) = schema_keys"
      by (rule mock_record_keys)
    show "map_of (mock_record B M clean h (clock W 1)) ''estimatedMonthlyVisits''
        = map_of (mock_record B M clean h (clock W' 1)) ''estimatedMonthlyVisits''"
      by (simp only: mock_record_history)
    show "map_of (mock_record B M clean h (clock W 1)) k
        = map_of (mock_record B M clean h (clock W' 1)) k" if "k \<noteq> ''snapshotDate''" for k
      using that by (rule mock_record_snapshot)
  qed
qed

theorem mock_path_deterministic_within_month_witness:
  "use_mock_data (example_config\<lparr>use_mock_data := True\<rparr>)
   \<and> normalize_domain ''Example.com/'' = Inr ''example.com''
   \<and> year (clock offline_world 0) = 2026 \<and> month (clock offline_world 0) = 11
   \<and> year (clock month_end_world 0) = 2026 \<and> month (clock month_end_world 0) = 11
   \<and> (\<exists>r r'.
        get_domain_data (example_config\<lparr>use_mock_data := True\<rparr>) offline_world no_text
          example_tables ''Example.com/''
          = (Inr r, [LogDebug ''Using mock traffic profile for %s''])
      \<and> get_domain_data (example_config\<lparr>use_mock_data := True\<rparr>) month_end_world no_text
          example_tables ''Example.com/''
          = (Inr r', [LogDebug ''Using mock traffic profile for %s''])
      \<and> map fst r = schema_keys \<and> map fst r' = schema_keys
      \<and> map_of r ''estimatedMonthlyVisits'' = map_of r' ''estimatedMonthlyVisits''
      \<and> (\<forall>k. k \<noteq> ''snapshotDate'' \<longrightarrow> map_of r k = map_of r' k))"
proof -
  have m: "use_mock_data (example_config\<lparr>use_mock_data := True\<rparr>)" by simp
  have d: "normalize_domain ''Example.com/'' = Inr ''example.com''"
    by (simp add: normalize_domain_def Let_def lower_def lower_char_def isupper_def
        with_bit5_def strip_def isspace_def)
  have ne: "''example.com'' \<noteq> []" by simp
  have y: "year (clock offline_world 0) = 2026" "month (clock offline_world 0) = 11"
    by (simp_all add: offline_world_def noon_def)
  have y': "year (clock month_end_world 0) = 2026" "month (clock month_end_world 0) = 11"
    by (simp_all add: month_end_world_def)
  have v: "2 \<le> year (clock offline_world 0)" "1 \<le> month (clock offline_world 0)"
    by (simp_all add: y)
  have s: "year (clock month_end_world 0) = year (clock offline_world 0)"
    "month (clock month_end_world 0) = month (clock offline_world 0)"
    by (simp_all add: y y')
  from mock_path_deterministic_within_month [OF m d ne v s, of no_text example_tables]
    m d y y'
  show ?thesis by blast
qed

end
